theory Spec2Isabelle
  imports Complex_Main "HOL-Library.AList" "HOL-Library.Word"
begin

section \<open>The TruncatedSVD wrapper of cuml (python/cuml/decomposition/tsvd.pyx)\<close>

text \<open>
  The module is a Cython wrapper: it reads the shape and element type of its input,
  fills a native parameter struct, allocates device buffers and calls one of four
  native routines. The estimator object is a record, every exception a value of
  \<open>error\<close>, and every method returns the estimator as it is when the method
  returns or raises.
\<close>

subsection \<open>Python values and exceptions\<close>

text \<open>
  The values the estimator's parameters can hold. Only hashable scalars are
  modelled (no lists or dicts as parameter values). The wrapper carries floats
  around and never computes with them; they are represented by reals.
\<close>

datatype pyval = PyNone | PyInt int | PyFloat real | PyStr string

text \<open>
  An exception message is either a literal text, or a format string together with the
  value \<open>str.format\<close> is applied to (the rendering of the value is not modelled).
\<close>

datatype message = Text string | Format string pyval

datatype error =
    TypeError message
  | ValueError message
  | KeyError pyval
  | IndexError message
  | OverflowError message
  | AttributeError message

subsection \<open>The solver enumeration\<close>

text \<open>
  Modelled from the spec: the enum constants \<open>COV_EIG_DQ\<close> and \<open>COV_EIG_JACOBI\<close>
  come from \<open>cuml.decomposition.utils\<close>, which is not part of the sources; the spec
  calls them opaque enum constants for the two strategies. A C enum is an integer on
  the Python side; they are numbered here in the order the spec lists the strategies.
\<close>

definition COV_EIG_DQ :: pyval where
  "COV_EIG_DQ = PyInt 0"

definition COV_EIG_JACOBI :: pyval where
  "COV_EIG_JACOBI = PyInt 1"

subsection \<open>class TSVDparams\<close>

text \<open>
  The seven attributes \<open>TSVDparams.__init__\<close> creates are fields; \<open>dyn\<close> holds the
  attributes that \<open>setattr\<close> adds later under other names, in insertion order.
\<close>

record TSVDparams =
  n_components :: pyval
  svd_solver :: pyval
  tol :: pyval
  iterated_power :: pyval
  random_state :: pyval
  n_cols :: pyval
  n_rows :: pyval
  dyn :: "(string \<times> pyval) list"

definition TSVDparams_init :: "pyval \<Rightarrow> pyval \<Rightarrow> pyval \<Rightarrow> pyval \<Rightarrow> pyval \<Rightarrow> TSVDparams" where
  "TSVDparams_init n_components' tol' iterated_power' random_state' svd_solver' =
     \<lparr> n_components = n_components', svd_solver = svd_solver', tol = tol',
       iterated_power = iterated_power', random_state = random_state',
       n_cols = PyNone, n_rows = PyNone, dyn = [] \<rparr>"

text \<open>\<open>setattr(self.params, key, value)\<close> and \<open>getattr(self.params, key, None)\<close>.\<close>

definition setattr_params :: "TSVDparams \<Rightarrow> string \<Rightarrow> pyval \<Rightarrow> TSVDparams" where
  "setattr_params p key v =
     (if key = ''n_components'' then p\<lparr>n_components := v\<rparr>
      else if key = ''svd_solver'' then p\<lparr>svd_solver := v\<rparr>
      else if key = ''tol'' then p\<lparr>tol := v\<rparr>
      else if key = ''iterated_power'' then p\<lparr>iterated_power := v\<rparr>
      else if key = ''random_state'' then p\<lparr>random_state := v\<rparr>
      else if key = ''n_cols'' then p\<lparr>n_cols := v\<rparr>
      else if key = ''n_rows'' then p\<lparr>n_rows := v\<rparr>
      else p\<lparr>dyn := AList.update key v (dyn p)\<rparr>)"

definition getattr_params :: "TSVDparams \<Rightarrow> string \<Rightarrow> pyval \<Rightarrow> pyval" where
  "getattr_params p key dflt =
     (if key = ''n_components'' then n_components p
      else if key = ''svd_solver'' then svd_solver p
      else if key = ''tol'' then tol p
      else if key = ''iterated_power'' then iterated_power p
      else if key = ''random_state'' then random_state p
      else if key = ''n_cols'' then n_cols p
      else if key = ''n_rows'' then n_rows p
      else (case map_of (dyn p) key of None \<Rightarrow> dflt | Some v \<Rightarrow> v))"

subsection \<open>Inputs, buffers and the estimator object\<close>

datatype dtype = float32 | float64 | other_dtype

text \<open>
  A cudf DataFrame is its columns in order (label, element type, values). A numpy
  array is its element type, its shape and its elements in column-major order (the
  order of \<open>np.array(X, order='F')\<close>). \<open>OtherObj\<close> is any other Python object.
\<close>

type_synonym column = "string \<times> dtype \<times> real list"

datatype obj =
    DataFrame "column list"
  | NdArray dtype "nat list" "real list"
  | OtherObj

text \<open>
  \<open>components_\<close> is \<open>None\<close>, then the flat device array of \<open>_initialize_arrays\<close>,
  then the DataFrame that \<open>fit\<close> builds from it.
\<close>

datatype components = DeviceArray "real list" | Frame "column list"

text \<open>
  A device pointer is modelled by the contents of the buffer it addresses; \<open>None\<close>
  is Python's \<open>None\<close>. The trailing underscore of an attribute name
  (\<open>components_\<close>) is written as a prime.
\<close>

record estimator =
  self_n_components :: pyval
  self_tol :: pyval
  self_n_iter :: pyval
  self_random_state :: pyval
  algorithm :: pyval
  params :: TSVDparams
  gdf_datatype :: "dtype option"
  trans_input' :: "real list option"
  components' :: "components option"
  explained_variance' :: "real list option"
  explained_variance_ratio' :: "real list option"
  mean' :: "real list option"
  singular_values' :: "real list option"
  noise_variance' :: "real list option"
  components_ptr :: "real list option"
  explained_variance_ptr :: "real list option"
  explained_variance_ratio_ptr :: "real list option"
  singular_values_ptr :: "real list option"

subsection \<open>\<open>_get_algorithm_c_name\<close> and \<open>__init__\<close>\<close>

text \<open>The dictionary lookup raises \<open>KeyError\<close> for a key that is not in it.\<close>

definition get_algorithm_c_name :: "pyval \<Rightarrow> error + pyval" where
  "get_algorithm_c_name alg =
     (case map_of [(PyStr ''full'', COV_EIG_DQ),
                   (PyStr ''auto'', COV_EIG_DQ),
                   (PyStr ''jacobi'', COV_EIG_JACOBI)] alg of
        None \<Rightarrow> Inl (KeyError alg)
      | Some c \<Rightarrow> Inr c)"

definition init :: "pyval \<Rightarrow> pyval \<Rightarrow> pyval \<Rightarrow> pyval \<Rightarrow> pyval \<Rightarrow> error + estimator" where
  "init n_components' tol' n_iter' random_state' algorithm' =
     (if algorithm' \<in> set [PyStr ''full'', PyStr ''auto'', PyStr ''jacobi''] then
        (case get_algorithm_c_name algorithm' of
           Inl e \<Rightarrow> Inl e
         | Inr c_algorithm \<Rightarrow>
             Inr \<lparr> self_n_components = n_components', self_tol = tol',
                   self_n_iter = n_iter', self_random_state = random_state',
                   algorithm = algorithm',
                   params = TSVDparams_init n_components' tol' n_iter' random_state'
                              c_algorithm,
                   gdf_datatype = None, trans_input' = None, components' = None,
                   explained_variance' = None, explained_variance_ratio' = None,
                   mean' = None, singular_values' = None, noise_variance' = None,
                   components_ptr = None, explained_variance_ptr = None,
                   explained_variance_ratio_ptr = None, singular_values_ptr = None \<rparr>)
      else Inl (TypeError (Format ''algorithm {!r} is not supported'' algorithm')))"

text \<open>
  \<open>TruncatedSVD(n_components=k)\<close>, the other arguments at the defaults of
  \<open>__init__\<close>.
\<close>

definition TruncatedSVD :: "int \<Rightarrow> error + estimator" where
  "TruncatedSVD k = init (PyInt k) (PyFloat (1 / 10 ^ 7)) (PyInt 15) PyNone (PyStr ''full'')"

subsection \<open>\<open>get_params\<close>\<close>

definition get_params_variables :: "string list" where
  "get_params_variables =
     [''n_components'', ''algorithm'', ''svd_solver'', ''tol'', ''n_iter'',
      ''random_state'', ''iterated_power'', ''random_state'', ''n_cols'', ''n_rows'']"

text \<open>
  The loop over \<open>variables\<close>; the dictionary is an association list in insertion
  order, and an assignment to a key that is present replaces its value in place.
\<close>

fun get_params_loop :: "estimator \<Rightarrow> string list \<Rightarrow> (string \<times> pyval) list \<Rightarrow> (string \<times> pyval) list" where
  "get_params_loop est [] d = d"
| "get_params_loop est (key # keys) d =
     (let var_value = getattr_params (params est) key PyNone;
          d1 = AList.update key var_value d;
          d2 = (if ''algorithm'' = key then AList.update key (algorithm est) d1 else d1)
      in get_params_loop est keys d2)"

definition get_params :: "estimator \<Rightarrow> (string \<times> pyval) list" where
  "get_params est = get_params_loop est get_params_variables []"

subsection \<open>\<open>set_params\<close>\<close>

definition set_params_variables :: "string list" where
  "set_params_variables =
     [''n_components'', ''algorithm'', ''tol'', ''svd_solver'', ''n_iter'',
      ''random_state'', ''c_algorithm'', ''iterated_power'', ''random_state'']"

text \<open>What \<open>set_params\<close> returns: \<open>self\<close> or \<open>self.params\<close>.\<close>

datatype returned = Self | Params

text \<open>
  The loop over \<open>params.items()\<close>: \<open>kw\<close> is the whole dictionary, the second argument
  the items still to visit. The estimator returned with an error is the estimator at
  the moment of the raise.
\<close>

fun set_params_loop :: "(string \<times> pyval) list \<Rightarrow> (string \<times> pyval) list \<Rightarrow> estimator \<Rightarrow> (error + unit) \<times> estimator" where
  "set_params_loop kw [] est = (Inr (), est)"
| "set_params_loop kw ((key, v) # items) est =
     (if key \<notin> set set_params_variables then
        (Inl (ValueError (Text ''Invalid parameter %s for estimator'')), est)
      else if ''algorithm'' \<in> set (map fst kw) \<and> key = ''algorithm'' then
        (let est1 = est\<lparr>algorithm := v\<rparr> in
         case get_algorithm_c_name v of
           Inl e \<Rightarrow> (Inl e, est1)
         | Inr c \<Rightarrow>
             set_params_loop kw items
               (est1\<lparr>params := setattr_params (params est1) ''svd_solver'' c\<rparr>))
      else set_params_loop kw items (est\<lparr>params := setattr_params (params est) key v\<rparr>))"

definition set_params :: "estimator \<Rightarrow> (string \<times> pyval) list \<Rightarrow> (error + returned) \<times> estimator" where
  "set_params est kw =
     (if kw = [] then (Inr Self, est)
      else (case set_params_loop kw kw est of
              (Inl e, est') \<Rightarrow> (Inl e, est')
            | (Inr u, est') \<Rightarrow> (Inr Params, est')))"

subsection \<open>Coercions at the C boundary, numpy and cudf primitives\<close>

text \<open>
  Assigning a Python object to a C \<open>int\<close> field (Cython 0.29): an \<open>int\<close> is range
  checked, a \<open>float\<close> goes through \<open>__int__\<close> (truncation towards zero), anything
  else is a \<open>TypeError\<close>.
\<close>

definition in_c_int :: "int \<Rightarrow> error + int" where
  "in_c_int i =
     (if - (2 ^ 31) \<le> i \<and> i < 2 ^ 31 then Inr i
      else Inl (OverflowError (Text ''value too large to convert to int'')))"

definition to_c_int :: "pyval \<Rightarrow> error + int" where
  "to_c_int v =
     (case v of
        PyInt i \<Rightarrow> in_c_int i
      | PyFloat r \<Rightarrow> in_c_int (if 0 \<le> r then \<lfloor>r\<rfloor> else \<lceil>r\<rceil>)
      | _ \<Rightarrow> Inl (TypeError (Text ''an integer is required'')))"

definition to_c_float :: "pyval \<Rightarrow> error + real" where
  "to_c_float v =
     (case v of
        PyFloat r \<Rightarrow> Inr r
      | PyInt i \<Rightarrow> Inr (real_of_int i)
      | _ \<Rightarrow> Inl (TypeError (Text ''a float is required'')))"

text \<open>
  Assigning a pointer value to a \<open>uintptr_t\<close>: \<open>None\<close> is a \<open>TypeError\<close>.
\<close>

definition to_uintptr :: "real list option \<Rightarrow> error + real list" where
  "to_uintptr p =
     (case p of
        None \<Rightarrow> Inl (TypeError (Text ''an integer is required''))
      | Some b \<Rightarrow> Inr b)"

text \<open>
  The product of two C \<open>int\<close>s wraps around at 32 bits, and so does a \<open>Py_ssize_t\<close>
  (the C result of \<open>len\<close>) assigned to a C \<open>int\<close>.
\<close>

definition c_int_mul :: "int \<Rightarrow> int \<Rightarrow> int" where
  "c_int_mul a b = sint (word_of_int (a * b) :: 32 word)"

definition ssize_to_c_int :: "nat \<Rightarrow> int" where
  "ssize_to_c_int n = sint (word_of_int (int n) :: 32 word)"

text \<open>
  Python's \<open>*\<close> and \<open>>\<close> on the values modelled. Comparing two strings, which the
  wrapper never does (its right operand is a column count), is left out.
\<close>

definition py_mul :: "pyval \<Rightarrow> pyval \<Rightarrow> error + pyval" where
  "py_mul a b =
     (case (a, b) of
        (PyInt x, PyInt y) \<Rightarrow> Inr (PyInt (x * y))
      | (PyInt x, PyFloat y) \<Rightarrow> Inr (PyFloat (real_of_int x * y))
      | (PyFloat x, PyInt y) \<Rightarrow> Inr (PyFloat (x * real_of_int y))
      | (PyFloat x, PyFloat y) \<Rightarrow> Inr (PyFloat (x * y))
      | (PyInt x, PyStr s) \<Rightarrow> Inr (PyStr (concat (replicate (nat x) s)))
      | (PyStr s, PyInt y) \<Rightarrow> Inr (PyStr (concat (replicate (nat y) s)))
      | _ \<Rightarrow> Inl (TypeError (Text ''unsupported operand type(s) for *'')))"

definition py_gt :: "pyval \<Rightarrow> pyval \<Rightarrow> error + bool" where
  "py_gt a b =
     (case (a, b) of
        (PyInt x, PyInt y) \<Rightarrow> Inr (x > y)
      | (PyInt x, PyFloat y) \<Rightarrow> Inr (real_of_int x > y)
      | (PyFloat x, PyInt y) \<Rightarrow> Inr (x > real_of_int y)
      | (PyFloat x, PyFloat y) \<Rightarrow> Inr (x > y)
      | _ \<Rightarrow> Inl (TypeError (Text ''> not supported between instances'')))"

text \<open>\<open>np.zeros(n, dtype)\<close>: a negative length is a \<open>ValueError\<close>, a non-integer a \<open>TypeError\<close>.\<close>

definition np_zeros :: "pyval \<Rightarrow> error + real list" where
  "np_zeros n =
     (case n of
        PyInt k \<Rightarrow>
          (if k < 0 then Inl (ValueError (Text ''negative dimensions are not allowed''))
           else Inr (replicate (nat k) 0))
      | _ \<Rightarrow> Inl (TypeError (Text ''object cannot be interpreted as an integer'')))"

text \<open>A slice \<open>xs[a:b]\<close> of a one-dimensional array.\<close>

definition py_slice :: "'a list \<Rightarrow> int \<Rightarrow> int \<Rightarrow> 'a list" where
  "py_slice xs a b =
     (let n = int (length xs);
          a' = (if a < 0 then max (a + n) 0 else min a n);
          b' = (if b < 0 then max (b + n) 0 else min b n)
      in take (nat (b' - a')) (drop (nat a') xs))"

text \<open>\<open>str(i)\<close> for a non-negative integer.\<close>

fun str_nat :: "nat \<Rightarrow> string" where
  "str_nat n =
     (if n < 10 then [char_of (48 + n)]
      else str_nat (n div 10) @ [char_of (48 + n mod 10)])"

declare str_nat.simps [simp del]

text \<open>
  \<open>len(X)\<close>, \<open>X[X.columns[0]]._column.dtype\<close> and cudf's \<open>X.as_gpu_matrix()\<close>, which
  wants at least one column and one row and a single element type.
\<close>

definition df_len :: "column list \<Rightarrow> nat" where
  "df_len cols = (case cols of [] \<Rightarrow> 0 | (name, dt, vals) # _ \<Rightarrow> length vals)"

definition df_first_dtype :: "column list \<Rightarrow> error + dtype" where
  "df_first_dtype cols =
     (case cols of
        [] \<Rightarrow> Inl (IndexError (Text ''index 0 is out of bounds for axis 0 with size 0''))
      | (name, dt, vals) # _ \<Rightarrow> Inr dt)"

definition as_gpu_matrix :: "column list \<Rightarrow> error + real list" where
  "as_gpu_matrix cols =
     (if length cols < 1 then Inl (ValueError (Text ''require at least 1 column''))
      else if df_len cols < 1 then Inl (ValueError (Text ''require at least 1 row''))
      else if list_ex (\<lambda>c. fst (snd c) \<noteq> fst (snd (hd cols))) cols
        then Inl (ValueError (Text ''all columns must have the same dtype''))
      else Inr (concat (map (\<lambda>c. snd (snd c)) cols)))"

text \<open>\<open>X.shape[i]\<close> of a numpy array.\<close>

definition shape_at :: "nat list \<Rightarrow> nat \<Rightarrow> error + nat" where
  "shape_at shape i =
     (if i < length shape then Inr (shape ! i)
      else Inl (IndexError (Text ''tuple index out of range'')))"

text \<open>\<open>df[label] = values\<close> on a DataFrame under construction.\<close>

definition df_setitem :: "column list \<Rightarrow> string \<Rightarrow> dtype \<Rightarrow> real list \<Rightarrow> column list" where
  "df_setitem df label dt vals = AList.update label (dt, vals) df"

subsection \<open>The native library\<close>

datatype ctype = CFloat | CDouble

text \<open>
  Modelled from the spec: the struct \<open>paramsTSVD\<close> is declared in
  \<open>cuml.decomposition.utils\<close>, which is not part of the sources. The record has
  the six fields the wrapper assigns, typed as the spec types \<open>TSVDParams\<close>:
  integers (C \<open>int\<close>, 32 bits), a float tolerance and the solver enum.
\<close>

record paramsTSVD =
  c_n_components :: int
  c_n_rows :: int
  c_n_cols :: int
  c_n_iterations :: int
  c_tol :: real
  c_algorithm :: int

text \<open>
  The four routines declared from \<open>tsvd/tsvd_c.h\<close> are parameters of the model:
  each is a function from the buffers it reads and the parameter struct to the
  contents it leaves in the buffers it writes. \<open>new_params\<close> is the struct as
  \<open>cpdef paramsTSVD params\<close> leaves it before any field is assigned.
\<close>

record native =
  new_params :: paramsTSVD
  tsvdFit :: "ctype \<Rightarrow> real list \<Rightarrow> paramsTSVD \<Rightarrow> real list \<times> real list"
  tsvdFitTransform ::
    "ctype \<Rightarrow> real list \<Rightarrow> paramsTSVD
       \<Rightarrow> real list \<times> real list \<times> real list \<times> real list \<times> real list"
  tsvdInverseTransform :: "ctype \<Rightarrow> real list \<Rightarrow> real list \<Rightarrow> paramsTSVD \<Rightarrow> real list"
  tsvdTransform :: "ctype \<Rightarrow> real list \<Rightarrow> real list \<Rightarrow> paramsTSVD \<Rightarrow> real list"

text \<open>A routine writes into a buffer of fixed size: what it returns is cut or padded to it.\<close>

definition written :: "real list \<Rightarrow> real list \<Rightarrow> real list" where
  "written buf out = take (length buf) out @ drop (length out) buf"

subsection \<open>Effects\<close>

text \<open>
  What a method does to the device is recorded in order: an allocation of a device
  buffer of so many elements (\<open>cuda.to_device\<close>, \<open>cudf.Series\<close>, \<open>as_gpu_matrix\<close>),
  or a call of a native routine.
\<close>

datatype routine = TsvdFit | TsvdFitTransform | TsvdInverseTransform | TsvdTransform

datatype event = Alloc nat | Native routine ctype paramsTSVD

type_synonym state = "estimator \<times> event list"

type_synonym 'a py = "state \<Rightarrow> (error + 'a) \<times> state"

definition py_return :: "'a \<Rightarrow> 'a py" where
  "py_return x s = (Inr x, s)"

definition py_raise :: "error \<Rightarrow> 'a py" where
  "py_raise e s = (Inl e, s)"

definition py_bind :: "'a py \<Rightarrow> ('a \<Rightarrow> 'b py) \<Rightarrow> 'b py" where
  "py_bind m f s = (case m s of (Inl e, s') \<Rightarrow> (Inl e, s') | (Inr x, s') \<Rightarrow> f x s')"

definition py_then :: "unit py \<Rightarrow> 'b py \<Rightarrow> 'b py" where
  "py_then m k = py_bind m (\<lambda>u. k)"

definition py_lift :: "error + 'a \<Rightarrow> 'a py" where
  "py_lift r = (case r of Inl e \<Rightarrow> py_raise e | Inr x \<Rightarrow> py_return x)"

definition py_self :: "estimator py" where
  "py_self s = (Inr (fst s), s)"

definition py_update :: "(estimator \<Rightarrow> estimator) \<Rightarrow> unit py" where
  "py_update f s = (Inr (), (f (fst s), snd s))"

definition emit :: "event \<Rightarrow> unit py" where
  "emit ev s = (Inr (), (fst s, snd s @ [ev]))"

text \<open>\<open>cuda.to_device(a)\<close> and \<open>cudf.Series(a)\<close> put the array \<open>a\<close> on the device.\<close>

definition to_device :: "real list \<Rightarrow> real list py" where
  "to_device a = py_then (emit (Alloc (length a))) (py_return a)"

definition Series :: "real list \<Rightarrow> real list py" where
  "Series a = py_then (emit (Alloc (length a))) (py_return a)"

definition c_type :: "dtype \<Rightarrow> ctype" where
  "c_type dt = (if dt = float32 then CFloat else CDouble)"

text \<open>
  \<open>device_ctypes_pointer.value\<close> of a device array: an empty device array has the
  NULL pointer, whose \<open>value\<close> is \<open>None\<close>. \<open>_get_ctype_ptr\<close> and \<open>_get_column_ptr\<close>
  return it for a device array and for the device array of a Series; \<open>None\<close> and a
  DataFrame have no such attribute. \<open>self.gdf_datatype\<close> exists once \<open>fit\<close> has
  assigned it.
\<close>

definition device_pointer :: "real list \<Rightarrow> real list option" where
  "device_pointer b = (if b = [] then None else Some b)"

definition get_ctype_ptr :: "components option \<Rightarrow> error + real list option" where
  "get_ctype_ptr a =
     (case a of
        Some (DeviceArray b) \<Rightarrow> Inr (device_pointer b)
      | _ \<Rightarrow> Inl (AttributeError (Text ''device_ctypes_pointer'')))"

definition get_column_ptr :: "real list option \<Rightarrow> error + real list option" where
  "get_column_ptr a =
     (case a of
        Some b \<Rightarrow> Inr (device_pointer b)
      | None \<Rightarrow> Inl (AttributeError (Text ''_column'')))"

text \<open>\<open>cdef uintptr_t p = f(...)\<close>: the call, then the conversion of its result.\<close>

definition as_uintptr :: "error + real list option \<Rightarrow> real list py" where
  "as_uintptr r = py_bind (py_lift r) (\<lambda>p. py_lift (to_uintptr p))"

definition get_gdf_datatype :: "estimator \<Rightarrow> error + dtype" where
  "get_gdf_datatype self =
     (case gdf_datatype self of
        Some dt \<Rightarrow> Inr dt
      | None \<Rightarrow> Inl (AttributeError (Text ''gdf_datatype'')))"

definition gpu_matrix :: "column list \<Rightarrow> real list py" where
  "gpu_matrix cols =
     py_bind (py_lift (as_gpu_matrix cols)) (\<lambda>m.
     py_then (emit (Alloc (length m))) (py_return m))"

definition py_range :: "int \<Rightarrow> nat list" where
  "py_range n = [0..<nat n]"

text \<open>
  The loops that cut a flat buffer into the columns of a new DataFrame:
  \<open>df[str(i)] = buf[i*w:(i+1)*w]\<close> for \<open>i\<close> in a range.
\<close>

fun slices_loop :: "dtype \<Rightarrow> real list \<Rightarrow> int \<Rightarrow> nat list \<Rightarrow> column list \<Rightarrow> column list" where
  "slices_loop dt buf w [] df = df"
| "slices_loop dt buf w (i # rest) df =
     slices_loop dt buf w rest
       (df_setitem df (str_nat i) dt (py_slice buf (int i * w) ((int i + 1) * w)))"

subsection \<open>\<open>_initialize_arrays\<close>\<close>

definition zeros_to_device :: "pyval \<Rightarrow> real list py" where
  "zeros_to_device n = py_bind (py_lift (np_zeros n)) to_device"

definition zeros_Series :: "pyval \<Rightarrow> real list py" where
  "zeros_Series n = py_bind (py_lift (np_zeros n)) Series"

definition initialize_arrays :: "pyval \<Rightarrow> pyval \<Rightarrow> pyval \<Rightarrow> unit py" where
  "initialize_arrays n_components' n_rows' n_cols' =
     py_bind (py_lift (py_mul n_rows' n_components')) (\<lambda>n1.
     py_bind (zeros_to_device n1) (\<lambda>a1.
     py_then (py_update (\<lambda>self. self\<lparr>trans_input' := Some a1\<rparr>)) (
     py_bind (py_lift (py_mul n_components' n_cols')) (\<lambda>n2.
     py_bind (zeros_to_device n2) (\<lambda>a2.
     py_then (py_update (\<lambda>self. self\<lparr>components' := Some (DeviceArray a2)\<rparr>)) (
     py_bind (zeros_Series n_components') (\<lambda>a3.
     py_then (py_update (\<lambda>self. self\<lparr>explained_variance' := Some a3\<rparr>)) (
     py_bind (zeros_Series n_components') (\<lambda>a4.
     py_then (py_update (\<lambda>self. self\<lparr>explained_variance_ratio' := Some a4\<rparr>)) (
     py_bind (zeros_Series n_cols') (\<lambda>a5.
     py_then (py_update (\<lambda>self. self\<lparr>mean' := Some a5\<rparr>)) (
     py_bind (zeros_Series n_components') (\<lambda>a6.
     py_then (py_update (\<lambda>self. self\<lparr>singular_values' := Some a6\<rparr>)) (
     py_bind (zeros_Series (PyInt 1)) (\<lambda>a7.
     py_update (\<lambda>self. self\<lparr>noise_variance' := Some a7\<rparr>))))))))))))))))"

subsection \<open>\<open>fit\<close>\<close>

text \<open>Lines 281 to 296: the element type, the device copy and the shape of \<open>X\<close>.\<close>

definition fit_input :: "obj \<Rightarrow> real list py" where
  "fit_input X =
     (case X of
        DataFrame cols \<Rightarrow>
          py_bind (py_lift (df_first_dtype cols)) (\<lambda>dt.
          py_then (py_update (\<lambda>self. self\<lparr>gdf_datatype := Some dt\<rparr>)) (
          py_bind (gpu_matrix cols) (\<lambda>X_m.
          py_then (py_update (\<lambda>self.
                     self\<lparr>params := (params self)\<lparr>n_rows := PyInt (int (df_len cols))\<rparr>\<rparr>)) (
          py_then (py_update (\<lambda>self.
                     self\<lparr>params := (params self)\<lparr>n_cols := PyInt (int (length cols))\<rparr>\<rparr>)) (
          py_return X_m)))))
      | NdArray dt shape vals \<Rightarrow>
          py_then (py_update (\<lambda>self. self\<lparr>gdf_datatype := Some dt\<rparr>)) (
          py_bind (to_device vals) (\<lambda>X_m.
          py_bind (py_lift (shape_at shape 0)) (\<lambda>r.
          py_then (py_update (\<lambda>self.
                     self\<lparr>params := (params self)\<lparr>n_rows := PyInt (int r)\<rparr>\<rparr>)) (
          py_bind (py_lift (shape_at shape 1)) (\<lambda>c.
          py_then (py_update (\<lambda>self.
                     self\<lparr>params := (params self)\<lparr>n_cols := PyInt (int c)\<rparr>\<rparr>)) (
          py_return X_m))))))
      | OtherObj \<Rightarrow> py_raise (TypeError (Text ''X matrix format  not supported'')))"

text \<open>Lines 300 to 306: the parameter struct, field by field.\<close>

definition fit_params :: "native \<Rightarrow> paramsTSVD py" where
  "fit_params N =
     py_bind py_self (\<lambda>self.
     py_bind (py_lift (to_c_int (n_components (params self)))) (\<lambda>a.
     py_bind (py_lift (to_c_int (n_rows (params self)))) (\<lambda>b.
     py_bind (py_lift (to_c_int (n_cols (params self)))) (\<lambda>c.
     py_bind (py_lift (to_c_int (iterated_power (params self)))) (\<lambda>d.
     py_bind (py_lift (to_c_float (tol (params self)))) (\<lambda>e.
     py_bind (py_lift (to_c_int (svd_solver (params self)))) (\<lambda>f.
     py_return ((new_params N)\<lparr>c_n_components := a, c_n_rows := b, c_n_cols := c,
                                 c_n_iterations := d, c_tol := e, c_algorithm := f\<rparr>))))))))"

text \<open>Lines 310 to 318: the pointers of the buffers just allocated.\<close>

definition fit_pointers :: "(real list \<times> real list \<times> real list \<times> real list \<times> real list) py" where
  "fit_pointers =
     py_bind py_self (\<lambda>self.
     py_bind (as_uintptr (get_ctype_ptr (components' self))) (\<lambda>components_p.
     py_bind (as_uintptr (get_column_ptr (explained_variance' self))) (\<lambda>explained_var_p.
     py_bind (as_uintptr (get_column_ptr (explained_variance_ratio' self))) (\<lambda>explained_var_ratio_p.
     py_bind (as_uintptr (get_column_ptr (singular_values' self))) (\<lambda>singular_vals_p.
     py_bind (as_uintptr (get_ctype_ptr (map_option DeviceArray (trans_input' self)))) (\<lambda>trans_input_p.
     py_return (components_p, explained_var_p, explained_var_ratio_p, singular_vals_p,
                trans_input_p)))))))"

text \<open>Lines 320 and 321.\<close>

definition fit_check :: "unit py" where
  "fit_check =
     py_bind py_self (\<lambda>self.
     py_bind (py_lift (py_gt (n_components (params self)) (n_cols (params self)))) (\<lambda>too_many.
     if too_many then py_raise (ValueError (Text '' n_components must be < n_features''))
     else py_return ()))"

text \<open>
  Lines 323 to 350: the native call. It writes through the pointers, so the
  attributes whose buffers it writes hold its results afterwards. The result is the
  contents of the five buffers after the call.
\<close>

definition fit_native ::
  "native \<Rightarrow> bool \<Rightarrow> real list \<Rightarrow> paramsTSVD
     \<Rightarrow> real list \<times> real list \<times> real list \<times> real list \<times> real list
     \<Rightarrow> (real list \<times> real list \<times> real list \<times> real list \<times> real list) py" where
  "fit_native N transform' input_p prms ptrs =
     (case ptrs of (components_p, explained_var_p, explained_var_ratio_p, singular_vals_p,
                    trans_input_p) \<Rightarrow>
      py_bind py_self (\<lambda>self.
      py_bind (py_lift (get_gdf_datatype self)) (\<lambda>dt.
      if \<not> transform' then
        py_then (emit (Native TsvdFit (c_type dt) prms)) (
        case tsvdFit N (c_type dt) input_p prms of (comps, svals) \<Rightarrow>
          py_then (py_update (\<lambda>self.
            self\<lparr>components' := Some (DeviceArray (written components_p comps)),
                 singular_values' := Some (written singular_vals_p svals)\<rparr>)) (
          py_return (written components_p comps, explained_var_p, explained_var_ratio_p,
                     written singular_vals_p svals, trans_input_p)))
      else
        py_then (emit (Native TsvdFitTransform (c_type dt) prms)) (
        case tsvdFitTransform N (c_type dt) input_p prms of (proj, comps, var, ratio, svals) \<Rightarrow>
          py_then (py_update (\<lambda>self.
            self\<lparr>trans_input' := Some (written trans_input_p proj),
                 components' := Some (DeviceArray (written components_p comps)),
                 explained_variance' := Some (written explained_var_p var),
                 explained_variance_ratio' := Some (written explained_var_ratio_p ratio),
                 singular_values' := Some (written singular_vals_p svals)\<rparr>)) (
          py_return (written components_p comps, written explained_var_p var,
                     written explained_var_ratio_p ratio, written singular_vals_p svals,
                     written trans_input_p proj))))))"

text \<open>Lines 352 to 363.\<close>

definition fit_finish ::
  "paramsTSVD \<Rightarrow> real list \<times> real list \<times> real list \<times> real list \<times> real list \<Rightarrow> unit py" where
  "fit_finish prms bufs =
     (case bufs of (components_b, explained_var_b, explained_var_ratio_b, singular_vals_b,
                    trans_input_b) \<Rightarrow>
      py_bind py_self (\<lambda>self.
      py_bind (py_lift (get_gdf_datatype self)) (\<lambda>dt.
      py_update (\<lambda>self.
        self\<lparr>components' :=
               Some (Frame (slices_loop dt components_b (c_n_components prms)
                              (py_range (c_n_cols prms)) [])),
             components_ptr := Some components_b,
             explained_variance_ptr := Some explained_var_b,
             explained_variance_ratio_ptr := Some explained_var_ratio_b,
             singular_values_ptr := Some singular_vals_b\<rparr>))))"

text \<open>Lines 310 to 363: the pointers, the check, the native call, the attributes.\<close>

definition fit_tail :: "native \<Rightarrow> bool \<Rightarrow> real list \<Rightarrow> paramsTSVD \<Rightarrow> unit py" where
  "fit_tail N transform' input_p prms =
     py_bind fit_pointers (\<lambda>ptrs.
     py_then fit_check (
     py_bind (fit_native N transform' input_p prms ptrs) (\<lambda>bufs.
     fit_finish prms bufs)))"

text \<open>
  The whole method: the input (lines 281 to 296), its pointer (line 298), the
  parameter struct, \<open>_initialize_arrays\<close> (line 307), and the rest.
\<close>

definition fit :: "native \<Rightarrow> obj \<Rightarrow> bool \<Rightarrow> unit py" where
  "fit N X transform' =
     py_bind (fit_input X) (\<lambda>X_m.
     py_bind (as_uintptr (Inr (device_pointer X_m))) (\<lambda>input_p.
     py_bind (fit_params N) (\<lambda>prms.
     py_bind py_self (\<lambda>self.
     py_then (initialize_arrays (n_components (params self)) (n_rows (params self))
                (n_cols (params self))) (
     fit_tail N transform' input_p prms)))))"

subsection \<open>\<open>transform\<close> and \<open>inverse_transform\<close>\<close>

text \<open>\<open>len(X)\<close> of an input; a numpy array without dimensions has no length.\<close>

definition py_len :: "obj \<Rightarrow> error + nat" where
  "py_len X =
     (case X of
        DataFrame cols \<Rightarrow> Inr (df_len cols)
      | NdArray dt shape vals \<Rightarrow>
          (case shape of
             [] \<Rightarrow> Inl (TypeError (Text ''len() of unsized object''))
           | r # _ \<Rightarrow> Inr r)
      | OtherObj \<Rightarrow> Inl (TypeError (Text ''object has no len()'')))"

text \<open>
  Lines 465 to 479; \<open>n_rows\<close> and \<open>n_cols\<close> are read and not used afterwards.
  In \<open>transform\<close> and \<open>inverse_transform\<close>, \<open>params.n_rows = len(X)\<close> assigns a C
  \<open>Py_ssize_t\<close> to a C \<open>int\<close>.
\<close>

definition transform_input :: "obj \<Rightarrow> (dtype \<times> real list) py" where
  "transform_input X =
     (case X of
        DataFrame cols \<Rightarrow>
          py_bind (py_lift (df_first_dtype cols)) (\<lambda>dt.
          py_bind (gpu_matrix cols) (\<lambda>X_m.
          py_return (dt, X_m)))
      | NdArray dt shape vals \<Rightarrow>
          py_bind (to_device vals) (\<lambda>X_m.
          py_bind (py_lift (shape_at shape 0)) (\<lambda>n_rows'.
          py_bind (py_lift (shape_at shape 1)) (\<lambda>n_cols'.
          py_return (dt, X_m))))
      | OtherObj \<Rightarrow> py_raise (TypeError (Text ''X matrix format  not supported'')))"

definition transform :: "native \<Rightarrow> obj \<Rightarrow> obj py" where
  "transform N X =
     py_bind (transform_input X) (\<lambda>inp.
     case inp of (dt, X_m) \<Rightarrow>
     py_bind (as_uintptr (Inr (device_pointer X_m))) (\<lambda>input_p.
     py_bind py_self (\<lambda>self.
     py_bind (py_lift (to_c_int (n_components (params self)))) (\<lambda>k.
     py_bind (py_lift (py_len X)) (\<lambda>len.
     py_bind (py_return (ssize_to_c_int len)) (\<lambda>r.
     py_bind (py_lift (to_c_int (n_cols (params self)))) (\<lambda>c.
     py_bind (zeros_to_device (PyInt (c_int_mul r k))) (\<lambda>trans_input_data.
     py_bind (as_uintptr (Inr (device_pointer trans_input_data))) (\<lambda>trans_input_p.
     py_bind (py_lift (to_uintptr (components_ptr self))) (\<lambda>components_p.
     py_then (emit (Native TsvdTransform (c_type dt)
                ((new_params N)\<lparr>c_n_components := k, c_n_rows := r, c_n_cols := c\<rparr>))) (
     py_return (DataFrame (slices_loop dt
        (written trans_input_p
           (tsvdTransform N (c_type dt) input_p components_p
              ((new_params N)\<lparr>c_n_components := k, c_n_rows := r, c_n_cols := c\<rparr>)))
        r (py_range k) [])))))))))))))"

text \<open>Lines 408 to 416.\<close>

definition inverse_transform_input :: "obj \<Rightarrow> (dtype \<times> real list) py" where
  "inverse_transform_input X =
     (case X of
        DataFrame cols \<Rightarrow>
          py_bind (py_lift (df_first_dtype cols)) (\<lambda>dt.
          py_bind (gpu_matrix cols) (\<lambda>X_m.
          py_return (dt, X_m)))
      | NdArray dt shape vals \<Rightarrow>
          py_bind (to_device vals) (\<lambda>X_m.
          py_return (dt, X_m))
      | OtherObj \<Rightarrow> py_raise (TypeError (Text ''X matrix format  not supported'')))"

definition inverse_transform :: "native \<Rightarrow> obj \<Rightarrow> obj py" where
  "inverse_transform N X =
     py_bind (inverse_transform_input X) (\<lambda>inp.
     case inp of (dt, X_m) \<Rightarrow>
     py_bind (as_uintptr (Inr (device_pointer X_m))) (\<lambda>trans_input_p.
     py_bind py_self (\<lambda>self.
     py_bind (py_lift (to_c_int (n_components (params self)))) (\<lambda>k.
     py_bind (py_lift (py_len X)) (\<lambda>len.
     py_bind (py_return (ssize_to_c_int len)) (\<lambda>r.
     py_bind (py_lift (to_c_int (n_cols (params self)))) (\<lambda>c.
     py_bind (zeros_to_device (PyInt (c_int_mul r c))) (\<lambda>input_data.
     py_bind (as_uintptr (Inr (device_pointer input_data))) (\<lambda>input_p.
     py_bind (py_lift (to_uintptr (components_ptr self))) (\<lambda>components_p.
     py_then (emit (Native TsvdInverseTransform (c_type dt)
                ((new_params N)\<lparr>c_n_components := k, c_n_rows := r, c_n_cols := c\<rparr>))) (
     py_return (DataFrame (slices_loop dt
        (written input_p
           (tsvdInverseTransform N (c_type dt) trans_input_p components_p
              ((new_params N)\<lparr>c_n_components := k, c_n_rows := r, c_n_cols := c\<rparr>)))
        r (py_range c) [])))))))))))))"

subsection \<open>The engine behind the native routines\<close>

text \<open>
  Modelled from the spec: the native library (\<open>tsvd/tsvd_c.h\<close>, namespace \<open>ML\<close>) is
  not part of the sources. Sections 4.2 to 4.5 of the spec say what its routines
  compute. Matrices are column-major buffers, entry \<open>(i, j)\<close> of a matrix with \<open>m\<close>
  rows at index \<open>i + j * m\<close>; the components buffer holds component \<open>k\<close> at the
  indices \<open>k + j * K\<close>, the layout in which \<open>fit\<close> cuts it into columns. A read
  outside a buffer yields 0. The two numerical kernels the spec leaves open are
  parameters: \<open>eig\<close>, the symmetric eigensolver of section 4.2, which from the order
  \<open>n\<close> and an \<open>n \<times> n\<close> matrix yields pairs of an eigenvalue and an eigenvector, and
  \<open>rot\<close>, which for the working matrix of section 4.3 names the next Jacobi
  rotation.
\<close>

definition elem :: "real list \<Rightarrow> nat \<Rightarrow> real" where
  "elem xs i = (if i < length xs then xs ! i else 0)"

text \<open>The \<open>n \<times> n\<close> matrix with entry \<open>f a b\<close> in row \<open>a\<close> and column \<open>b\<close>.\<close>

definition square :: "nat \<Rightarrow> (nat \<Rightarrow> nat \<Rightarrow> real) \<Rightarrow> real list" where
  "square n f = concat (map (\<lambda>b. map (\<lambda>a. f a b) [0..<n]) [0..<n])"

text \<open>Section 4.2, step 1: the Gram matrix \<open>C = X\<^sup>t X\<close>.\<close>

definition gram :: "nat \<Rightarrow> nat \<Rightarrow> real list \<Rightarrow> real list" where
  "gram m n X =
     concat (map (\<lambda>b. map (\<lambda>a. sum_list (map (\<lambda>i. elem X (i + a * m) * elem X (i + b * m)) [0..<m]))
                          [0..<n]) [0..<n])"

text \<open>
  Modelled from the spec: section 4.3, the Jacobi strategy. The working matrix \<open>W\<close> starts as the Gram
  matrix and \<open>V\<close> as the identity. A rotation in the plane of the axes \<open>p\<close> and \<open>q\<close>
  with cosine \<open>c\<close> and sine \<open>s\<close> is the matrix \<open>J\<close>; it turns \<open>W\<close> into
  \<open>J\<^sup>t W J\<close> and \<open>V\<close> into \<open>V J\<close>. The iteration stops when the largest
  off-diagonal entry of \<open>W\<close> is below \<open>tol\<close>, or after \<open>n_iterations\<close> rotations,
  whichever comes first. The diagonal of \<open>W\<close> then holds the approximate
  eigenvalues and the columns of \<open>V\<close> the approximate eigenvectors.
\<close>

definition identity_matrix :: "nat \<Rightarrow> real list" where
  "identity_matrix n = square n (\<lambda>a b. if a = b then 1 else 0)"

definition rotation :: "nat \<Rightarrow> nat \<times> nat \<times> real \<times> real \<Rightarrow> real list" where
  "rotation n g =
     (case g of (p, q, c, s) \<Rightarrow>
        square n (\<lambda>a b. if a = p \<and> b = p then c
                        else if a = q \<and> b = q then c
                        else if a = p \<and> b = q then s
                        else if a = q \<and> b = p then - s
                        else if a = b then 1 else 0))"

definition rotated :: "nat \<Rightarrow> real list \<Rightarrow> real list \<Rightarrow> real list" where
  "rotated n J W =
     square n (\<lambda>a b. sum_list (map (\<lambda>c. sum_list (map (\<lambda>d.
        elem J (c + a * n) * elem W (c + d * n) * elem J (d + b * n)) [0..<n])) [0..<n]))"

definition times_matrix :: "nat \<Rightarrow> real list \<Rightarrow> real list \<Rightarrow> real list" where
  "times_matrix n V J =
     square n (\<lambda>a b. sum_list (map (\<lambda>c. elem V (a + c * n) * elem J (c + b * n)) [0..<n]))"

definition largest_off_diagonal :: "nat \<Rightarrow> real list \<Rightarrow> real" where
  "largest_off_diagonal n W =
     fold max (square n (\<lambda>a b. if a = b then 0 else \<bar>elem W (a + b * n)\<bar>)) 0"

fun jacobi_rotations ::
  "(nat \<Rightarrow> real list \<Rightarrow> nat \<times> nat \<times> real \<times> real) \<Rightarrow> nat \<Rightarrow> real \<Rightarrow> nat \<Rightarrow> real list \<Rightarrow> real list
     \<Rightarrow> real list \<times> real list" where
  "jacobi_rotations rot 0 tolerance n W V = (W, V)"
| "jacobi_rotations rot (Suc i) tolerance n W V =
     (if largest_off_diagonal n W < tolerance then (W, V)
      else jacobi_rotations rot i tolerance n (rotated n (rotation n (rot n W)) W)
             (times_matrix n V (rotation n (rot n W))))"

definition jacobi_eigenpairs ::
  "(nat \<Rightarrow> real list \<Rightarrow> nat \<times> nat \<times> real \<times> real) \<Rightarrow> nat \<Rightarrow> real \<Rightarrow> nat \<Rightarrow> real list
     \<Rightarrow> (real \<times> real list) list" where
  "jacobi_eigenpairs rot iterations tolerance n C =
     (case jacobi_rotations rot iterations tolerance n C (identity_matrix n) of (W, V) \<Rightarrow>
        map (\<lambda>k. (elem W (k + k * n), map (\<lambda>a. elem V (a + k * n)) [0..<n])) [0..<n])"

text \<open>
  Modelled from the spec: the eigenpairs of the Gram matrix by the strategy that the
  parameter struct selects: the eigensolver of section 4.2, step 2, or the Jacobi iteration of
  section 4.3 with its iteration cap and tolerance.
\<close>

definition engine_eigenpairs ::
  "(nat \<Rightarrow> real list \<Rightarrow> (real \<times> real list) list)
     \<Rightarrow> (nat \<Rightarrow> real list \<Rightarrow> nat \<times> nat \<times> real \<times> real) \<Rightarrow> paramsTSVD \<Rightarrow> real list
     \<Rightarrow> (real \<times> real list) list" where
  "engine_eigenpairs eig rot p X =
     (if PyInt (c_algorithm p) = COV_EIG_JACOBI then
        jacobi_eigenpairs rot (nat (c_n_iterations p)) (c_tol p) (nat (c_n_cols p))
          (gram (nat (c_n_rows p)) (nat (c_n_cols p)) X)
      else eig (nat (c_n_cols p)) (gram (nat (c_n_rows p)) (nat (c_n_cols p)) X))"

text \<open>Step 3: the eigenpairs sorted by eigenvalue descending, the top \<open>K\<close> kept.\<close>

definition top_eigenpairs :: "nat \<Rightarrow> (real \<times> real list) list \<Rightarrow> (real \<times> real list) list" where
  "top_eigenpairs K pairs = take K (sort_key (\<lambda>p. - fst p) pairs)"

text \<open>Step 4: singular values and right singular vectors.\<close>

definition engine_singular_values :: "(real \<times> real list) list \<Rightarrow> real list" where
  "engine_singular_values pairs = map (\<lambda>p. sqrt (fst p)) pairs"

definition engine_components :: "nat \<Rightarrow> (real \<times> real list) list \<Rightarrow> real list" where
  "engine_components n pairs = concat (map (\<lambda>j. map (\<lambda>p. elem (snd p) j) pairs) [0..<n])"

text \<open>Step 5 and section 4.4: the projection \<open>X \<cdot> components\<close>.\<close>

definition engine_transform :: "nat \<Rightarrow> nat \<Rightarrow> nat \<Rightarrow> real list \<Rightarrow> real list \<Rightarrow> real list" where
  "engine_transform m n K X comps =
     concat (map (\<lambda>k. map (\<lambda>i. sum_list (map (\<lambda>j. elem X (i + j * m) * elem comps (k + j * K)) [0..<n]))
                          [0..<m]) [0..<K])"

text \<open>Section 4.5: the reconstruction \<open>Z \<cdot> components\<^sup>t\<close>.\<close>

definition engine_inverse_transform :: "nat \<Rightarrow> nat \<Rightarrow> nat \<Rightarrow> real list \<Rightarrow> real list \<Rightarrow> real list" where
  "engine_inverse_transform m n K Z comps =
     concat (map (\<lambda>j. map (\<lambda>i. sum_list (map (\<lambda>k. elem Z (i + k * m) * elem comps (k + j * K)) [0..<K]))
                          [0..<m]) [0..<n])"

text \<open>Steps 6 and 7: explained variance and its ratio over the retained components.\<close>

definition engine_explained_variance :: "nat \<Rightarrow> real list \<Rightarrow> real list" where
  "engine_explained_variance m svals = map (\<lambda>s. s\<^sup>2 / (real m - 1)) svals"

definition engine_explained_variance_ratio :: "real list \<Rightarrow> real list" where
  "engine_explained_variance_ratio vars = map (\<lambda>v. v / sum_list vars) vars"

definition engine ::
  "(nat \<Rightarrow> real list \<Rightarrow> (real \<times> real list) list)
     \<Rightarrow> (nat \<Rightarrow> real list \<Rightarrow> nat \<times> nat \<times> real \<times> real) \<Rightarrow> paramsTSVD \<Rightarrow> native" where
  "engine eig rot prms0 =
     \<lparr> new_params = prms0,
       tsvdFit = (\<lambda>ct X p.
         let pairs = top_eigenpairs (nat (c_n_components p)) (engine_eigenpairs eig rot p X)
         in (engine_components (nat (c_n_cols p)) pairs, engine_singular_values pairs)),
       tsvdFitTransform = (\<lambda>ct X p.
         let pairs = top_eigenpairs (nat (c_n_components p)) (engine_eigenpairs eig rot p X);
             comps = engine_components (nat (c_n_cols p)) pairs;
             svals = engine_singular_values pairs;
             vars = engine_explained_variance (nat (c_n_rows p)) svals
         in (engine_transform (nat (c_n_rows p)) (nat (c_n_cols p)) (nat (c_n_components p))
               X comps,
             comps, vars, engine_explained_variance_ratio vars, svals)),
       tsvdInverseTransform = (\<lambda>ct Z comps p.
         engine_inverse_transform (nat (c_n_rows p)) (nat (c_n_cols p))
           (nat (c_n_components p)) Z comps),
       tsvdTransform = (\<lambda>ct X comps p.
         engine_transform (nat (c_n_rows p)) (nat (c_n_cols p)) (nat (c_n_components p))
           X comps) \<rparr>"

text \<open>
  What step 2 asks of the eigensolver: one pair for each of the \<open>n\<close> dimensions,
  each an eigenvalue of the \<open>n \<times> n\<close> matrix \<open>C\<close> with an eigenvector of it, a
  vector \<open>v\<close> of length \<open>n\<close>, not zero, with \<open>C v = \<lambda> v\<close>.
\<close>

definition mat_vec :: "nat \<Rightarrow> real list \<Rightarrow> real list \<Rightarrow> real list" where
  "mat_vec n C v =
     map (\<lambda>a. sum_list (map (\<lambda>b. elem C (a + b * n) * elem v b) [0..<n])) [0..<n]"

definition is_eigenpair :: "nat \<Rightarrow> real list \<Rightarrow> real \<times> real list \<Rightarrow> bool" where
  "is_eigenpair n C p =
     (length (snd p) = n \<and> list_ex (\<lambda>x. x \<noteq> 0) (snd p)
      \<and> mat_vec n C (snd p) = map (\<lambda>x. fst p * x) (snd p))"

definition eigensolver_for :: "(nat \<Rightarrow> real list \<Rightarrow> (real \<times> real list) list) \<Rightarrow> nat \<Rightarrow> real list \<Rightarrow> bool" where
  "eigensolver_for eig n C = (length (eig n C) = n \<and> list_all (is_eigenpair n C) (eig n C))"

text \<open>
  Kernels for a diagonal matrix: its eigenpairs are its diagonal entries with the
  unit vectors, and its Jacobi rotation has the angle 0. With them the engine runs
  on inputs whose Gram matrix is diagonal.
\<close>

definition diag_eig :: "nat \<Rightarrow> real list \<Rightarrow> (real \<times> real list) list" where
  "diag_eig n C = map (\<lambda>a. (elem C (a + a * n), map (\<lambda>j. if j = a then 1 else 0) [0..<n])) [0..<n]"

definition diag_rot :: "nat \<Rightarrow> real list \<Rightarrow> nat \<times> nat \<times> real \<times> real" where
  "diag_rot n W = (0, 1, 1, 0)"

definition zero_params :: paramsTSVD where
  "zero_params = \<lparr> c_n_components = 0, c_n_rows = 0, c_n_cols = 0, c_n_iterations = 0,
                   c_tol = 0, c_algorithm = 0 \<rparr>"

text \<open>
  Concrete inputs: the engine with the kernels for diagonal matrices, the float32
  matrix \<open>diag(3, 2, 1)\<close> and a \<open>3 \<times> 4\<close> float32 matrix, both as numpy arrays, and
  the estimator of the docstring, \<open>TruncatedSVD(n_components=2, algorithm="jacobi",
  n_iter=20, tol=1e-9)\<close>.
\<close>

definition diag_engine :: native where
  "diag_engine = engine diag_eig diag_rot zero_params"

definition jacobi_TruncatedSVD :: "error + estimator" where
  "jacobi_TruncatedSVD = init (PyInt 2) (PyFloat (1 / 10 ^ 9)) (PyInt 20) PyNone (PyStr ''jacobi'')"

definition diag3 :: obj where
  "diag3 = NdArray float32 [3, 3] [3, 0, 0, 0, 2, 0, 0, 0, 1]"

definition wide3x4 :: obj where
  "wide3x4 = NdArray float32 [3, 4] [1, 0, 0, 0, 1, 0, 0, 0, 1, 1, 1, 1]"

text \<open>
  What a native fit leaves in the buffers of the singular values and of the
  components: \<open>tsvdFit\<close> without, \<open>tsvdFitTransform\<close> with \<open>_transform\<close>.
\<close>

definition native_singular_values ::
  "native \<Rightarrow> bool \<Rightarrow> ctype \<Rightarrow> real list \<Rightarrow> paramsTSVD \<Rightarrow> real list" where
  "native_singular_values N t ct X_m prms =
     (if t then snd (snd (snd (snd (tsvdFitTransform N ct X_m prms))))
      else snd (tsvdFit N ct X_m prms))"

definition native_components ::
  "native \<Rightarrow> bool \<Rightarrow> ctype \<Rightarrow> real list \<Rightarrow> paramsTSVD \<Rightarrow> real list" where
  "native_components N t ct X_m prms =
     (if t then fst (snd (tsvdFitTransform N ct X_m prms))
      else fst (tsvdFit N ct X_m prms))"

text \<open>Which events are calls of a native routine.\<close>

fun native_calls :: "event list \<Rightarrow> event list" where
  "native_calls [] = []"
| "native_calls (Alloc n # evs) = native_calls evs"
| "native_calls (Native f ct p # evs) = Native f ct p # native_calls evs"

section \<open>Properties\<close>

lemmas py_defs = py_bind_def py_then_def py_return_def py_raise_def py_lift_def
  py_self_def py_update_def emit_def

subsection \<open>Parameters: \<open>get_params\<close> and \<open>set_params\<close>\<close>

lemma get_params_eq:
  "get_params est =
     [(''n_components'', n_components (params est)),
      (''algorithm'', algorithm est),
      (''svd_solver'', svd_solver (params est)),
      (''tol'', tol (params est)),
      (''n_iter'', getattr_params (params est) ''n_iter'' PyNone),
      (''random_state'', random_state (params est)),
      (''iterated_power'', iterated_power (params est)),
      (''n_cols'', n_cols (params est)),
      (''n_rows'', n_rows (params est))]"
  by (simp add: get_params_def get_params_variables_def getattr_params_def Let_def)

lemma TruncatedSVD_eq:
  "TruncatedSVD k =
     Inr \<lparr> self_n_components = PyInt k, self_tol = PyFloat (1 / 10 ^ 7),
           self_n_iter = PyInt 15, self_random_state = PyNone,
           algorithm = PyStr ''full'',
           params = \<lparr> n_components = PyInt k, svd_solver = PyInt 0,
                      tol = PyFloat (1 / 10 ^ 7), iterated_power = PyInt 15,
                      random_state = PyNone, n_cols = PyNone, n_rows = PyNone, dyn = [] \<rparr>,
           gdf_datatype = None, trans_input' = None, components' = None,
           explained_variance' = None, explained_variance_ratio' = None,
           mean' = None, singular_values' = None, noise_variance' = None,
           components_ptr = None, explained_variance_ptr = None,
           explained_variance_ratio_ptr = None, singular_values_ptr = None \<rparr>"
  by (simp add: TruncatedSVD_def init_def get_algorithm_c_name_def COV_EIG_DQ_def
      TSVDparams_init_def)

text \<open>
  C8, as the code has it: \<open>get_params\<close> returns a dictionary with exactly the nine
  keys \<open>n_components\<close>, \<open>algorithm\<close>, \<open>svd_solver\<close>, \<open>tol\<close>, \<open>n_iter\<close>,
  \<open>random_state\<close>, \<open>iterated_power\<close>, \<open>n_cols\<close>, \<open>n_rows\<close>, in this order;
  \<open>algorithm\<close> is bound to the estimator's attribute, and \<open>n_components\<close>,
  \<open>svd_solver\<close>, \<open>tol\<close>, \<open>random_state\<close>, \<open>iterated_power\<close>, \<open>n_cols\<close> and
  \<open>n_rows\<close> to the current attributes of \<open>self.params\<close>.
\<close>

theorem get_params_keys_and_values:
  "map fst (get_params est) =
     [''n_components'', ''algorithm'', ''svd_solver'', ''tol'', ''n_iter'',
      ''random_state'', ''iterated_power'', ''n_cols'', ''n_rows'']
   \<and> map_of (get_params est) ''n_components'' = Some (n_components (params est))
   \<and> map_of (get_params est) ''algorithm'' = Some (algorithm est)
   \<and> map_of (get_params est) ''svd_solver'' = Some (svd_solver (params est))
   \<and> map_of (get_params est) ''tol'' = Some (tol (params est))
   \<and> map_of (get_params est) ''random_state'' = Some (random_state (params est))
   \<and> map_of (get_params est) ''iterated_power'' = Some (iterated_power (params est))
   \<and> map_of (get_params est) ''n_cols'' = Some (n_cols (params est))
   \<and> map_of (get_params est) ''n_rows'' = Some (n_rows (params est))"
  by (simp add: get_params_eq)

text \<open>
  C8 as stated fails: the keys of \<open>TruncatedSVD().get_params()\<close> are not the six
  keys \<open>n_components\<close>, \<open>algorithm\<close>, \<open>tol\<close>, \<open>n_iterations\<close>, \<open>n_rows\<close>, \<open>n_cols\<close>.
\<close>

theorem get_params_six_keys_counterexample:
  "set (map fst (get_params (projr (TruncatedSVD 1)))) \<noteq>
     {''n_components'', ''algorithm'', ''tol'', ''n_iterations'', ''n_rows'', ''n_cols''}"
proof
  assume eq: "set (map fst (get_params (projr (TruncatedSVD 1)))) =
     {''n_components'', ''algorithm'', ''tol'', ''n_iterations'', ''n_rows'', ''n_cols''}"
  have "''svd_solver'' \<in> set (map fst (get_params (projr (TruncatedSVD 1))))"
    by (simp add: get_params_eq)
  then have "''svd_solver'' \<in>
     {''n_components'', ''algorithm'', ''tol'', ''n_iterations'', ''n_rows'', ''n_cols''}"
    unfolding eq .
  then show False by simp
qed

text \<open>
  C7, at the failing input: \<open>set_params(foo=v)\<close> and \<open>set_params(bar=v)\<close> raise the
  same \<open>ValueError\<close>, whose message still holds the placeholder \<open>%s\<close>: the error
  does not name the offending key.
\<close>

theorem set_params_unknown_key_message:
  "set_params est [(''foo'', v)] =
     (Inl (ValueError (Text ''Invalid parameter %s for estimator'')), est)
   \<and> set_params est [(''bar'', v)] =
     (Inl (ValueError (Text ''Invalid parameter %s for estimator'')), est)"
  by (simp add: set_params_def set_params_variables_def)

lemma get_algorithm_c_name_unknown:
  "v \<notin> {PyStr ''full'', PyStr ''auto'', PyStr ''jacobi''}
     \<Longrightarrow> get_algorithm_c_name v = Inl (KeyError v)"
  by (simp add: get_algorithm_c_name_def)

lemma set_params_loop_bad_algorithm:
  assumes "set (map fst pre) \<subseteq> set set_params_variables"
    and "''algorithm'' \<notin> set (map fst pre)"
    and "v \<notin> {PyStr ''full'', PyStr ''auto'', PyStr ''jacobi''}"
    and "''algorithm'' \<in> set (map fst kw)"
  shows "fst (set_params_loop kw (pre @ (''algorithm'', v) # post) est) = Inl (KeyError v)
       \<and> algorithm (snd (set_params_loop kw (pre @ (''algorithm'', v) # post) est)) = v"
  using assms
proof (induction pre arbitrary: est)
  case Nil
  then show ?case
    by (simp add: get_algorithm_c_name_unknown set_params_variables_def)
next
  case (Cons kv pre)
  obtain key x where kv: "kv = (key, x)" by (cases kv)
  from Cons.prems kv have key: "key \<in> set set_params_variables" "key \<noteq> ''algorithm''"
    by auto
  from Cons.prems have rest: "set (map fst pre) \<subseteq> set set_params_variables"
    "''algorithm'' \<notin> set (map fst pre)"
    by auto
  show ?case
    using Cons.IH [OF rest Cons.prems(3) Cons.prems(4)] key
    by (simp add: kv)
qed

text \<open>
  C10, as the code has it: when the dictionary passed to \<open>set_params\<close> holds the key
  \<open>algorithm\<close> with a value outside \<open>full\<close>, \<open>auto\<close>, \<open>jacobi\<close>, and every key
  that comes before it in the dictionary's order is a recognised one, the call
  raises the \<open>KeyError\<close> of the lookup, and the estimator's \<open>algorithm\<close> attribute
  already holds the invalid value.
\<close>

theorem set_params_bad_algorithm:
  assumes "kw = pre @ (''algorithm'', v) # post"
    and "distinct (map fst kw)"
    and "set (map fst pre) \<subseteq> set set_params_variables"
    and "v \<notin> {PyStr ''full'', PyStr ''auto'', PyStr ''jacobi''}"
  shows "fst (set_params est kw) = Inl (KeyError v)
       \<and> algorithm (snd (set_params est kw)) = v"
proof -
  from assms(1,2) have notin: "''algorithm'' \<notin> set (map fst pre)"
    by auto
  from assms(1) have isin: "''algorithm'' \<in> set (map fst kw)"
    by simp
  have loop: "fst (set_params_loop kw kw est) = Inl (KeyError v)
       \<and> algorithm (snd (set_params_loop kw kw est)) = v"
    using set_params_loop_bad_algorithm [OF assms(3) notin assms(4) isin, of post est]
    by (simp add: assms(1))
  from assms(1) have "kw \<noteq> []" by simp
  with loop show ?thesis
    by (cases "set_params_loop kw kw est") (auto simp: set_params_def split: sum.splits)
qed

theorem set_params_bad_algorithm_witness:
  "fst (set_params (projr (TruncatedSVD 1))
          [(''tol'', PyFloat 1), (''algorithm'', PyStr ''randomized''), (''n_iter'', PyInt 5)])
     = Inl (KeyError (PyStr ''randomized''))
   \<and> algorithm (snd (set_params (projr (TruncatedSVD 1))
          [(''tol'', PyFloat 1), (''algorithm'', PyStr ''randomized''), (''n_iter'', PyInt 5)]))
     = PyStr ''randomized''"
  by (rule set_params_bad_algorithm [where pre = "[(''tol'', PyFloat 1)]"
        and post = "[(''n_iter'', PyInt 5)]"])
     (simp_all add: set_params_variables_def)

text \<open>
  C10 as stated fails when an unrecognised key comes first: the call raises the
  \<open>ValueError\<close> for that key and \<open>algorithm\<close> keeps its value.
\<close>

theorem set_params_bad_algorithm_counterexample:
  "fst (set_params (projr (TruncatedSVD 1))
          [(''bogus'', PyInt 1), (''algorithm'', PyStr ''randomized'')])
     = Inl (ValueError (Text ''Invalid parameter %s for estimator''))
   \<and> algorithm (snd (set_params (projr (TruncatedSVD 1))
          [(''bogus'', PyInt 1), (''algorithm'', PyStr ''randomized'')]))
     = PyStr ''full''"
  by (simp add: set_params_def set_params_variables_def TruncatedSVD_eq)

subsection \<open>Unsupported inputs\<close>

text \<open>
  C9: for an input that is neither a DataFrame nor a numpy array, \<open>fit\<close>,
  \<open>transform\<close> and \<open>inverse_transform\<close> raise the \<open>TypeError\<close> for an unsupported
  matrix format; the estimator is unchanged and nothing has happened on the device,
  no allocation and no native call.
\<close>

theorem unsupported_input_rejected:
  "fit N OtherObj t (est, tr) =
     (Inl (TypeError (Text ''X matrix format  not supported'')), (est, tr))
   \<and> transform N OtherObj (est, tr) =
     (Inl (TypeError (Text ''X matrix format  not supported'')), (est, tr))
   \<and> inverse_transform N OtherObj (est, tr) =
     (Inl (TypeError (Text ''X matrix format  not supported'')), (est, tr))"
  by (simp add: fit_def fit_input_def transform_def transform_input_def
      inverse_transform_def inverse_transform_input_def py_bind_def py_raise_def)

subsection \<open>\<open>fit\<close>: the steps\<close>

lemma as_uintptr_device:
  "as_uintptr (Inr (device_pointer b)) s =
     (if b = [] then (Inl (TypeError (Text ''an integer is required'')), s) else (Inr b, s))"
  by (simp add: as_uintptr_def device_pointer_def to_uintptr_def py_defs)

lemma replicate_nat_ne: "0 < i \<Longrightarrow> replicate (nat i) x \<noteq> []"
  by simp

lemma fit_input_ndarray:
  "fit_input (NdArray dt [r, c] vals) (est, tr) =
     (Inr vals,
      (est\<lparr>gdf_datatype := Some dt,
            params := (params est)\<lparr>n_rows := PyInt (int r), n_cols := PyInt (int c)\<rparr>\<rparr>,
       tr @ [Alloc (length vals)]))"
  by (simp add: fit_input_def py_defs to_device_def shape_at_def)

lemma fit_input_inv:
  assumes "fit_input X (est, tr) = (Inr X_m, (est1, tr1))"
  shows "\<exists>dt r c. est1 = est\<lparr>gdf_datatype := Some dt,
            params := (params est)\<lparr>n_rows := PyInt (int r), n_cols := PyInt (int c)\<rparr>\<rparr>
          \<and> tr1 = tr @ [Alloc (length X_m)]"
proof (cases X)
  case (DataFrame cols)
  with assms show ?thesis
    by (auto simp: fit_input_def py_defs gpu_matrix_def split: sum.splits)
next
  case (NdArray dt shape vals)
  with assms show ?thesis
    by (auto simp: fit_input_def py_defs to_device_def split: sum.splits)
next
  case OtherObj
  with assms show ?thesis
    by (simp add: fit_input_def py_defs)
qed

lemma fit_params_ok:
  assumes "to_c_int (n_components (params est)) = Inr a"
    and "to_c_int (n_rows (params est)) = Inr b"
    and "to_c_int (n_cols (params est)) = Inr c"
    and "to_c_int (iterated_power (params est)) = Inr d"
    and "to_c_float (tol (params est)) = Inr e"
    and "to_c_int (svd_solver (params est)) = Inr f"
  shows "fit_params N (est, tr) =
     (Inr ((new_params N)\<lparr>c_n_components := a, c_n_rows := b, c_n_cols := c,
                            c_n_iterations := d, c_tol := e, c_algorithm := f\<rparr>), (est, tr))"
  using assms by (simp add: fit_params_def py_defs)

lemma initialize_arrays_ok:
  assumes "0 \<le> k" "0 \<le> r" "0 \<le> c"
  shows "initialize_arrays (PyInt k) (PyInt r) (PyInt c) (est, tr) =
     (Inr (),
      (est\<lparr>trans_input' := Some (replicate (nat (r * k)) 0),
            components' := Some (DeviceArray (replicate (nat (k * c)) 0)),
            explained_variance' := Some (replicate (nat k) 0),
            explained_variance_ratio' := Some (replicate (nat k) 0),
            mean' := Some (replicate (nat c) 0),
            singular_values' := Some (replicate (nat k) 0),
            noise_variance' := Some [0]\<rparr>,
       tr @ [Alloc (nat (r * k)), Alloc (nat (k * c)), Alloc (nat k), Alloc (nat k),
             Alloc (nat c), Alloc (nat k), Alloc 1]))"
  using assms
  by (simp add: initialize_arrays_def zeros_to_device_def zeros_Series_def to_device_def
      Series_def py_defs py_mul_def np_zeros_def not_less)

lemma fit_pointers_ok:
  assumes "components' est = Some (DeviceArray a)" "explained_variance' est = Some b"
    "explained_variance_ratio' est = Some c" "singular_values' est = Some d"
    "trans_input' est = Some e"
    and "a \<noteq> []" "b \<noteq> []" "c \<noteq> []" "d \<noteq> []" "e \<noteq> []"
  shows "fit_pointers (est, tr) = (Inr (a, b, c, d, e), (est, tr))"
  using assms
  by (simp add: fit_pointers_def py_defs get_ctype_ptr_def get_column_ptr_def as_uintptr_def
      device_pointer_def to_uintptr_def)

lemma fit_pointers_null:
  assumes "components' est = Some (DeviceArray a)" "explained_variance' est = Some b"
    "explained_variance_ratio' est = Some c" "singular_values' est = Some d"
    "trans_input' est = Some e"
    and "a = [] \<or> b = [] \<or> c = [] \<or> d = [] \<or> e = []"
  shows "fit_pointers (est, tr) = (Inl (TypeError (Text ''an integer is required'')), (est, tr))"
  using assms
  by (auto simp: fit_pointers_def py_defs get_ctype_ptr_def get_column_ptr_def as_uintptr_def
      device_pointer_def to_uintptr_def)

lemma fit_check_int:
  assumes "n_components (params est) = PyInt k" "n_cols (params est) = PyInt c"
  shows "fit_check (est, tr) =
     (if c < k then (Inl (ValueError (Text '' n_components must be < n_features'')), (est, tr))
      else (Inr (), (est, tr)))"
  using assms by (simp add: fit_check_def py_defs py_gt_def)

lemma in_c_int_ok: "- (2 ^ 31) \<le> i \<Longrightarrow> i < 2 ^ 31 \<Longrightarrow> in_c_int i = Inr i"
  by (simp add: in_c_int_def)

lemma to_c_int_PyInt: "- (2 ^ 31) \<le> i \<Longrightarrow> i < 2 ^ 31 \<Longrightarrow> to_c_int (PyInt i) = Inr i"
  by (simp add: to_c_int_def in_c_int_def)

lemma fit_empty_input:
  assumes inp: "fit_input X (est, tr) = (Inr [], (est1, tr1))"
  shows "fit N X t (est, tr) =
     (Inl (TypeError (Text ''an integer is required'')), (est1, tr @ [Alloc 0]))"
proof -
  from fit_input_inv [OF inp] have "tr1 = tr @ [Alloc 0]" by auto
  then show ?thesis
    by (simp add: fit_def py_bind_def inp as_uintptr_device)
qed

text \<open>
  Up to line 307: with a non-empty input and parameters that convert, \<open>fit\<close> is its
  rest run on the estimator with the seven buffers, after eight allocations.
\<close>

lemma fit_to_tail:
  assumes inp: "fit_input X (est, tr) = (Inr X_m, (est1, tr1))"
    and ne: "X_m \<noteq> []"
    and k: "n_components (params est) = PyInt k"
    and r: "n_rows (params est1) = PyInt r"
    and c: "n_cols (params est1) = PyInt c"
    and k0: "0 \<le> k" and kmax: "k < 2 ^ 31" and rmax: "r < 2 ^ 31" and cmax: "c < 2 ^ 31"
    and d: "to_c_int (iterated_power (params est)) = Inr d"
    and e: "to_c_float (tol (params est)) = Inr e"
    and f: "to_c_int (svd_solver (params est)) = Inr f"
  shows "fit N X t (est, tr) =
     fit_tail N t X_m
       ((new_params N)\<lparr>c_n_components := k, c_n_rows := r, c_n_cols := c,
                        c_n_iterations := d, c_tol := e, c_algorithm := f\<rparr>)
       (est1\<lparr>trans_input' := Some (replicate (nat (r * k)) 0),
             components' := Some (DeviceArray (replicate (nat (k * c)) 0)),
             explained_variance' := Some (replicate (nat k) 0),
             explained_variance_ratio' := Some (replicate (nat k) 0),
             mean' := Some (replicate (nat c) 0),
             singular_values' := Some (replicate (nat k) 0),
             noise_variance' := Some [0]\<rparr>,
        tr @ [Alloc (length X_m), Alloc (nat (r * k)), Alloc (nat (k * c)), Alloc (nat k),
              Alloc (nat k), Alloc (nat c), Alloc (nat k), Alloc 1])"
proof -
  from fit_input_inv [OF inp] obtain dt r' c' where
    est1: "est1 = est\<lparr>gdf_datatype := Some dt,
            params := (params est)\<lparr>n_rows := PyInt (int r'), n_cols := PyInt (int c')\<rparr>\<rparr>"
    and tr1: "tr1 = tr @ [Alloc (length X_m)]"
    by blast
  from r c est1 have rc: "r = int r'" "c = int c'" by simp_all
  then have nonneg: "0 \<le> r" "0 \<le> c" by simp_all
  have p1: "n_components (params est1) = PyInt k"
    "iterated_power (params est1) = iterated_power (params est)"
    "tol (params est1) = tol (params est)" "svd_solver (params est1) = svd_solver (params est)"
    using k est1 by simp_all
  have prm: "fit_params N (est1, tr1) =
     (Inr ((new_params N)\<lparr>c_n_components := k, c_n_rows := r, c_n_cols := c,
                            c_n_iterations := d, c_tol := e, c_algorithm := f\<rparr>), (est1, tr1))"
    using nonneg k0 kmax rmax cmax
    by (intro fit_params_ok) (simp_all add: p1 r c d e f to_c_int_PyInt)
  have "fit N X t (est, tr) =
     fit_tail N t X_m
       ((new_params N)\<lparr>c_n_components := k, c_n_rows := r, c_n_cols := c,
                        c_n_iterations := d, c_tol := e, c_algorithm := f\<rparr>)
       (est1\<lparr>trans_input' := Some (replicate (nat (r * k)) 0),
             components' := Some (DeviceArray (replicate (nat (k * c)) 0)),
             explained_variance' := Some (replicate (nat k) 0),
             explained_variance_ratio' := Some (replicate (nat k) 0),
             mean' := Some (replicate (nat c) 0),
             singular_values' := Some (replicate (nat k) 0),
             noise_variance' := Some [0]\<rparr>,
        tr1 @ [Alloc (nat (r * k)), Alloc (nat (k * c)), Alloc (nat k),
              Alloc (nat k), Alloc (nat c), Alloc (nat k), Alloc 1])"
    using ne
    by (simp add: fit_def py_bind_def py_then_def py_self_def inp as_uintptr_device prm p1 r c
        initialize_arrays_ok [OF k0 nonneg])
  then show ?thesis by (simp add: tr1)
qed

lemma fit_tail_null:
  assumes "n_components (params est1) = PyInt k" "0 \<le> k" "0 \<le> r" "0 \<le> c"
    and "k = 0 \<or> r = 0 \<or> c = 0"
  shows "fit_tail N t X_m prms
       (est1\<lparr>trans_input' := Some (replicate (nat (r * k)) 0),
             components' := Some (DeviceArray (replicate (nat (k * c)) 0)),
             explained_variance' := Some (replicate (nat k) 0),
             explained_variance_ratio' := Some (replicate (nat k) 0),
             mean' := Some (replicate (nat c) 0),
             singular_values' := Some (replicate (nat k) 0),
             noise_variance' := Some [0]\<rparr>, tr2) =
     (Inl (TypeError (Text ''an integer is required'')),
      (est1\<lparr>trans_input' := Some (replicate (nat (r * k)) 0),
             components' := Some (DeviceArray (replicate (nat (k * c)) 0)),
             explained_variance' := Some (replicate (nat k) 0),
             explained_variance_ratio' := Some (replicate (nat k) 0),
             mean' := Some (replicate (nat c) 0),
             singular_values' := Some (replicate (nat k) 0),
             noise_variance' := Some [0]\<rparr>, tr2))"
proof -
  from assms have "replicate (nat (k * c)) (0::real) = [] \<or> replicate (nat k) (0::real) = []
      \<or> replicate (nat (r * k)) (0::real) = []"
    by auto
  then show ?thesis
    by (subst fit_tail_def, simp only: py_bind_def)
       (subst fit_pointers_null [where a = "replicate (nat (k * c)) 0" and b = "replicate (nat k) 0"
          and c = "replicate (nat k) 0" and d = "replicate (nat k) 0"
          and e = "replicate (nat (r * k)) 0"], auto)
qed

lemma fit_tail_raises:
  assumes "n_components (params est1) = PyInt k" "n_cols (params est1) = PyInt c"
    and "0 < r" "0 < c" "c < k"
  shows "fit_tail N t X_m prms
       (est1\<lparr>trans_input' := Some (replicate (nat (r * k)) 0),
             components' := Some (DeviceArray (replicate (nat (k * c)) 0)),
             explained_variance' := Some (replicate (nat k) 0),
             explained_variance_ratio' := Some (replicate (nat k) 0),
             mean' := Some (replicate (nat c) 0),
             singular_values' := Some (replicate (nat k) 0),
             noise_variance' := Some [0]\<rparr>, tr2) =
     (Inl (ValueError (Text '' n_components must be < n_features'')),
      (est1\<lparr>trans_input' := Some (replicate (nat (r * k)) 0),
             components' := Some (DeviceArray (replicate (nat (k * c)) 0)),
             explained_variance' := Some (replicate (nat k) 0),
             explained_variance_ratio' := Some (replicate (nat k) 0),
             mean' := Some (replicate (nat c) 0),
             singular_values' := Some (replicate (nat k) 0),
             noise_variance' := Some [0]\<rparr>, tr2))"
proof -
  from assms have k0: "0 < k" by simp
  have ne: "replicate (nat (k * c)) (0::real) \<noteq> []" "replicate (nat k) (0::real) \<noteq> []"
      "replicate (nat (r * k)) (0::real) \<noteq> []"
    by (rule replicate_nat_ne, rule mult_pos_pos, fact, fact)
       (rule replicate_nat_ne, fact, rule replicate_nat_ne, rule mult_pos_pos, fact, fact)
  show ?thesis
    using assms ne
    by (simp add: fit_tail_def py_bind_def py_then_def fit_pointers_ok fit_check_int)
qed

lemma fit_native_fit:
  assumes "gdf_datatype est = Some dt"
  shows "fit_native N False X_m prms (a, b, c, d, e) (est, tr) =
     (Inr (written a (fst (tsvdFit N (c_type dt) X_m prms)), b, c,
           written d (snd (tsvdFit N (c_type dt) X_m prms)), e),
      (est\<lparr>components' := Some (DeviceArray (written a (fst (tsvdFit N (c_type dt) X_m prms)))),
            singular_values' := Some (written d (snd (tsvdFit N (c_type dt) X_m prms)))\<rparr>,
       tr @ [Native TsvdFit (c_type dt) prms]))"
  using assms
  by (simp add: fit_native_def py_defs get_gdf_datatype_def split: prod.splits)

lemma fit_native_fit_transform:
  assumes "gdf_datatype est = Some dt"
  shows "fit_native N True X_m prms (a, b, c, d, e) (est, tr) =
     (Inr (written a (fst (snd (tsvdFitTransform N (c_type dt) X_m prms))),
           written b (fst (snd (snd (tsvdFitTransform N (c_type dt) X_m prms)))),
           written c (fst (snd (snd (snd (tsvdFitTransform N (c_type dt) X_m prms))))),
           written d (snd (snd (snd (snd (tsvdFitTransform N (c_type dt) X_m prms))))),
           written e (fst (tsvdFitTransform N (c_type dt) X_m prms))),
      (est\<lparr>trans_input' := Some (written e (fst (tsvdFitTransform N (c_type dt) X_m prms))),
            components' := Some (DeviceArray
               (written a (fst (snd (tsvdFitTransform N (c_type dt) X_m prms))))),
            explained_variance' :=
               Some (written b (fst (snd (snd (tsvdFitTransform N (c_type dt) X_m prms))))),
            explained_variance_ratio' :=
               Some (written c (fst (snd (snd (snd (tsvdFitTransform N (c_type dt) X_m prms)))))),
            singular_values' :=
               Some (written d (snd (snd (snd (snd (tsvdFitTransform N (c_type dt) X_m prms))))))\<rparr>,
       tr @ [Native TsvdFitTransform (c_type dt) prms]))"
  using assms
  by (simp add: fit_native_def py_defs get_gdf_datatype_def split: prod.splits)

lemma fit_tail_ok:
  assumes k: "n_components (params est1) = PyInt k" and c: "n_cols (params est1) = PyInt c"
    and dt: "gdf_datatype est1 = Some dt"
    and pos: "0 < r" "0 < k" "k \<le> c"
    and F: "F = fit_tail N t X_m prms
       (est1\<lparr>trans_input' := Some (replicate (nat (r * k)) 0),
             components' := Some (DeviceArray (replicate (nat (k * c)) 0)),
             explained_variance' := Some (replicate (nat k) 0),
             explained_variance_ratio' := Some (replicate (nat k) 0),
             mean' := Some (replicate (nat c) 0),
             singular_values' := Some (replicate (nat k) 0),
             noise_variance' := Some [0]\<rparr>, tr2)"
  shows "fst F = Inr ()
     \<and> snd (snd F) = tr2 @ [Native (if t then TsvdFitTransform else TsvdFit) (c_type dt) prms]
     \<and> params (fst (snd F)) = params est1
     \<and> singular_values' (fst (snd F)) =
       Some (written (replicate (nat k) 0) (native_singular_values N t (c_type dt) X_m prms))
     \<and> components_ptr (fst (snd F)) =
       Some (written (replicate (nat (k * c)) 0) (native_components N t (c_type dt) X_m prms))"
proof -
  from pos have c0: "0 < c" by simp
  have ne: "replicate (nat (k * c)) (0::real) \<noteq> []" "replicate (nat k) (0::real) \<noteq> []"
      "replicate (nat (r * k)) (0::real) \<noteq> []"
    by (rule replicate_nat_ne, rule mult_pos_pos, fact, fact)
       (rule replicate_nat_ne, fact, rule replicate_nat_ne, rule mult_pos_pos, fact, fact)
  show ?thesis
    unfolding F using pos(3) ne
    by (cases t)
       (simp_all add: fit_tail_def py_bind_def py_then_def k c dt fit_pointers_ok fit_check_int
        fit_native_fit fit_native_fit_transform native_singular_values_def native_components_def
        fit_finish_def py_lift_def get_gdf_datatype_def py_return_def py_update_def py_self_def)
qed

lemma native_calls_append [simp]:
  "native_calls (xs @ ys) = native_calls xs @ native_calls ys"
  by (induction xs rule: native_calls.induct) simp_all

lemma initialize_arrays_negative:
  assumes "k < 0" "0 \<le> r" "0 \<le> c"
  shows "fst (initialize_arrays (PyInt k) (PyInt r) (PyInt c) (est, tr)) =
           Inl (ValueError (Text ''negative dimensions are not allowed''))"
    and "native_calls (snd (snd (initialize_arrays (PyInt k) (PyInt r) (PyInt c) (est, tr)))) =
           native_calls tr"
    and "take (length tr) (snd (snd (initialize_arrays (PyInt k) (PyInt r) (PyInt c) (est, tr)))) = tr"
  using assms
  by (simp_all add: initialize_arrays_def zeros_to_device_def zeros_Series_def to_device_def
      Series_def py_defs py_mul_def np_zeros_def)


lemma initialize_arrays_not_int:
  assumes "\<And>k. n \<noteq> PyInt k"
  shows "isl (fst (initialize_arrays n (PyInt r) (PyInt c) (est, tr)))"
  using assms
  by (cases n)
     (auto simp: initialize_arrays_def zeros_to_device_def zeros_Series_def to_device_def
      Series_def py_defs py_mul_def np_zeros_def)

lemma fit_params_inv:
  assumes "fit_params N (est, tr) = (Inr p, s')"
  shows "\<exists>a b c d e f. to_c_int (n_components (params est)) = Inr a
      \<and> to_c_int (n_rows (params est)) = Inr b \<and> to_c_int (n_cols (params est)) = Inr c
      \<and> to_c_int (iterated_power (params est)) = Inr d
      \<and> to_c_float (tol (params est)) = Inr e
      \<and> to_c_int (svd_solver (params est)) = Inr f"
  using assms
  by (auto simp: fit_params_def py_defs split: sum.splits)

lemma to_c_int_PyInt_inv: "to_c_int (PyInt i) = Inr a \<Longrightarrow> i < 2 ^ 31 \<and> a = i"
  by (auto simp: to_c_int_def in_c_int_def split: if_splits)

lemma fit_ok:
  assumes inp: "fit_input X (est, tr) = (Inr X_m, (est1, tr1))"
    and ne: "X_m \<noteq> []"
    and k: "n_components (params est) = PyInt k"
    and r: "n_rows (params est1) = PyInt r"
    and c: "n_cols (params est1) = PyInt c"
    and dt: "gdf_datatype est1 = Some dt"
    and r0: "0 < r" and k0: "0 < k" and ck: "k \<le> c" and cmax: "c < 2 ^ 31"
    and rmax: "r < 2 ^ 31"
    and d: "to_c_int (iterated_power (params est)) = Inr d"
    and e: "to_c_float (tol (params est)) = Inr e"
    and f: "to_c_int (svd_solver (params est)) = Inr f"
    and prms: "prms = (new_params N)\<lparr>c_n_components := k, c_n_rows := r, c_n_cols := c,
                            c_n_iterations := d, c_tol := e, c_algorithm := f\<rparr>"
  shows "fst (fit N X t (est, tr)) = Inr ()"
    and "snd (snd (fit N X t (est, tr))) =
       tr @ [Alloc (length X_m), Alloc (nat (r * k)), Alloc (nat (k * c)), Alloc (nat k),
             Alloc (nat k), Alloc (nat c), Alloc (nat k), Alloc 1,
             Native (if t then TsvdFitTransform else TsvdFit) (c_type dt) prms]"
    and "params (fst (snd (fit N X t (est, tr)))) = params est1"
    and "singular_values' (fst (snd (fit N X t (est, tr)))) =
       Some (written (replicate (nat k) 0) (native_singular_values N t (c_type dt) X_m prms))"
    and "components_ptr (fst (snd (fit N X t (est, tr)))) =
       Some (written (replicate (nat (k * c)) 0) (native_components N t (c_type dt) X_m prms))"
proof -
  from fit_input_inv [OF inp] obtain dt' r' c' where
    est1: "est1 = est\<lparr>gdf_datatype := Some dt',
            params := (params est)\<lparr>n_rows := PyInt (int r'), n_cols := PyInt (int c')\<rparr>\<rparr>"
    by blast
  have k1: "n_components (params est1) = PyInt k"
    using k est1 by simp
  from k0 have k0': "0 \<le> k" by simp
  from k0 ck cmax have kmax: "k < 2 ^ 31" by simp
  note tail = fit_to_tail [OF inp ne k r c k0' kmax rmax cmax d e f, where N = N and t = t,
      folded prms]
  note run = fit_tail_ok [OF k1 c dt r0 k0 ck tail]
  from run show "fst (fit N X t (est, tr)) = Inr ()"
    by simp
  from run show "snd (snd (fit N X t (est, tr))) =
       tr @ [Alloc (length X_m), Alloc (nat (r * k)), Alloc (nat (k * c)), Alloc (nat k),
             Alloc (nat k), Alloc (nat c), Alloc (nat k), Alloc 1,
             Native (if t then TsvdFitTransform else TsvdFit) (c_type dt) prms]"
    by simp
  from run show "params (fst (snd (fit N X t (est, tr)))) = params est1"
    by simp
  from run show "singular_values' (fst (snd (fit N X t (est, tr)))) =
       Some (written (replicate (nat k) 0) (native_singular_values N t (c_type dt) X_m prms))"
    by simp
  from run show "components_ptr (fst (snd (fit N X t (est, tr)))) =
       Some (written (replicate (nat (k * c)) 0) (native_components N t (c_type dt) X_m prms))"
    by simp
qed

lemma fit_success_inv:
  assumes ok: "fst (fit N X t (est, tr)) = Inr ()"
  obtains X_m est1 tr1 k r c dt d e f where
    "fit_input X (est, tr) = (Inr X_m, (est1, tr1))"
    "X_m \<noteq> []"
    "n_components (params est) = PyInt k"
    "n_rows (params est1) = PyInt r"
    "n_cols (params est1) = PyInt c"
    "gdf_datatype est1 = Some dt"
    "0 < r" "0 < k" "k \<le> c" "c < 2 ^ 31" "r < 2 ^ 31"
    "to_c_int (iterated_power (params est)) = Inr d"
    "to_c_float (tol (params est)) = Inr e"
    "to_c_int (svd_solver (params est)) = Inr f"
proof -
  obtain a1 est1 tr1 where s1: "fit_input X (est, tr) = (a1, (est1, tr1))"
    by (metis surj_pair)
  with ok obtain X_m where inp: "fit_input X (est, tr) = (Inr X_m, (est1, tr1))"
    by (cases a1) (simp_all add: fit_def py_bind_def)
  have ne: "X_m \<noteq> []"
  proof
    assume "X_m = []"
    with inp ok fit_empty_input [of X est tr est1 tr1 N t] show False by simp
  qed
  from fit_input_inv [OF inp] obtain dt r' c' where
    est1: "est1 = est\<lparr>gdf_datatype := Some dt,
            params := (params est)\<lparr>n_rows := PyInt (int r'), n_cols := PyInt (int c')\<rparr>\<rparr>"
    and tr1: "tr1 = tr @ [Alloc (length X_m)]"
    by blast
  obtain a2 s2 where s2: "fit_params N (est1, tr1) = (a2, s2)"
    by (metis surj_pair)
  with ok inp ne obtain p where prm: "fit_params N (est1, tr1) = (Inr p, s2)"
    by (cases a2) (simp_all add: fit_def py_bind_def as_uintptr_device)
  from fit_params_inv [OF prm] obtain a b c d e f where conv:
    "to_c_int (n_components (params est1)) = Inr a"
    "to_c_int (n_rows (params est1)) = Inr b" "to_c_int (n_cols (params est1)) = Inr c"
    "to_c_int (iterated_power (params est1)) = Inr d"
    "to_c_float (tol (params est1)) = Inr e"
    "to_c_int (svd_solver (params est1)) = Inr f"
    by blast
  have s2eq: "s2 = (est1, tr1)"
    using prm conv by (simp add: fit_params_def py_defs)
  have init_ok: "\<not> isl (fst (initialize_arrays (n_components (params est1)) (PyInt (int r'))
                            (PyInt (int c')) (est1, tr1)))"
  proof
    assume "isl (fst (initialize_arrays (n_components (params est1)) (PyInt (int r'))
                            (PyInt (int c')) (est1, tr1)))"
    then obtain err s3 where "initialize_arrays (n_components (params est1)) (PyInt (int r'))
                            (PyInt (int c')) (est1, tr1) = (Inl err, s3)"
      by (metis isl_def prod.collapse)
    with ok inp ne prm s2eq est1 show False
      by (simp add: fit_def py_bind_def py_then_def py_self_def as_uintptr_device)
  qed
  then obtain k where k1: "n_components (params est1) = PyInt k"
    using initialize_arrays_not_int by blast
  have k0: "0 \<le> k"
  proof (rule ccontr)
    assume "\<not> 0 \<le> k"
    then have "k < 0" by simp
    from initialize_arrays_negative(1) [OF this, of "int r'" "int c'" est1 tr1] init_ok k1
    show False by simp
  qed
  have k: "n_components (params est) = PyInt k"
    using k1 est1 by simp
  have r: "n_rows (params est1) = PyInt (int r')" and c: "n_cols (params est1) = PyInt (int c')"
    and dt: "gdf_datatype est1 = Some dt"
    and d: "to_c_int (iterated_power (params est)) = Inr d"
    and e: "to_c_float (tol (params est)) = Inr e"
    and f: "to_c_int (svd_solver (params est)) = Inr f"
    using est1 conv by simp_all
  from conv(1,2,3) est1 k1 have mx: "k < 2 ^ 31" "int r' < 2 ^ 31" "int c' < 2 ^ 31"
    by (auto dest: to_c_int_PyInt_inv)
  note tail = fit_to_tail [OF inp ne k r c k0 mx d e f, where N = N and t = t]
  have pos: "0 < k \<and> 0 < int r' \<and> 0 < int c'"
  proof (rule ccontr)
    assume "\<not> (0 < k \<and> 0 < int r' \<and> 0 < int c')"
    with k0 have "k = 0 \<or> int r' = 0 \<or> int c' = 0" by auto
    from fit_tail_null [OF k1 k0 _ _ this] tail ok show False by simp
  qed
  have kc: "k \<le> int c'"
  proof (rule ccontr)
    assume "\<not> k \<le> int c'"
    then have "int c' < k" by simp
    from fit_tail_raises [OF k1 c _ _ this] pos tail ok show False by simp
  qed
  from that [OF inp ne k r c dt _ _ kc mx(3) mx(2) d e f] pos
  show thesis by simp
qed

subsection \<open>\<open>fit\<close>: the parameter checks\<close>

text \<open>
  C1, as the code has it: when \<open>fit\<close> has read its input and \<open>n_components\<close> (an
  integer that fits a C \<open>int\<close>, the other parameters convertible to the native
  struct) is greater than \<open>n_cols\<close>, the call fails before any native routine is
  called, but not before the allocations. With a non-empty input, the input is on the
  device and the seven buffers of \<open>_initialize_arrays\<close> have been allocated and
  assigned to the estimator's attributes by then; the error is the \<open>ValueError\<close> of
  line 321 when the input has a row and a column, and otherwise the \<open>TypeError\<close> of
  the null pointer of an empty buffer, which is read before the check (line 310).
  With an empty input the call fails at line 298, with the same \<open>TypeError\<close>, after
  the input has been put on the device.
\<close>

theorem fit_too_many_components:
  assumes "fit_input X (est, tr) = (Inr X_m, (est1, tr1))"
    and "n_components (params est) = PyInt k"
    and "n_rows (params est1) = PyInt r"
    and "n_cols (params est1) = PyInt c"
    and "c < k" and "k < 2 ^ 31" and "r < 2 ^ 31"
    and "to_c_int (iterated_power (params est)) = Inr d"
    and "to_c_float (tol (params est)) = Inr e"
    and "to_c_int (svd_solver (params est)) = Inr f"
  shows "(X_m \<noteq> [] \<longrightarrow>
       fit N X t (est, tr) =
         (Inl (if 0 < r \<and> 0 < c then ValueError (Text '' n_components must be < n_features'')
               else TypeError (Text ''an integer is required'')),
          (est1\<lparr>trans_input' := Some (replicate (nat (r * k)) 0),
                components' := Some (DeviceArray (replicate (nat (k * c)) 0)),
                explained_variance' := Some (replicate (nat k) 0),
                explained_variance_ratio' := Some (replicate (nat k) 0),
                mean' := Some (replicate (nat c) 0),
                singular_values' := Some (replicate (nat k) 0),
                noise_variance' := Some [0]\<rparr>,
           tr @ [Alloc (length X_m), Alloc (nat (r * k)), Alloc (nat (k * c)), Alloc (nat k),
                 Alloc (nat k), Alloc (nat c), Alloc (nat k), Alloc 1])))
     \<and> (X_m = [] \<longrightarrow>
       fit N X t (est, tr) =
         (Inl (TypeError (Text ''an integer is required'')), (est1, tr @ [Alloc 0])))"
proof (intro conjI impI)
  assume "X_m = []"
  with assms(1) show "fit N X t (est, tr) =
         (Inl (TypeError (Text ''an integer is required'')), (est1, tr @ [Alloc 0]))"
    by (simp add: fit_empty_input)
next
  assume ne: "X_m \<noteq> []"
  from fit_input_inv [OF assms(1)] obtain dt r' c' where
    est1: "est1 = est\<lparr>gdf_datatype := Some dt,
            params := (params est)\<lparr>n_rows := PyInt (int r'), n_cols := PyInt (int c')\<rparr>\<rparr>"
    by blast
  from assms(3,4) est1 have nonneg: "0 \<le> r" "0 \<le> c" by auto
  with assms(5) have k0: "0 \<le> k" by simp
  from assms(5,6) have cmax: "c < 2 ^ 31" by simp
  have k1: "n_components (params est1) = PyInt k"
    using assms(2) est1 by simp
  note tail = fit_to_tail [OF assms(1) ne assms(2,3,4) k0 assms(6,7) cmax assms(8,9,10),
      where N = N and t = t]
  show "fit N X t (est, tr) =
         (Inl (if 0 < r \<and> 0 < c then ValueError (Text '' n_components must be < n_features'')
               else TypeError (Text ''an integer is required'')),
          (est1\<lparr>trans_input' := Some (replicate (nat (r * k)) 0),
                components' := Some (DeviceArray (replicate (nat (k * c)) 0)),
                explained_variance' := Some (replicate (nat k) 0),
                explained_variance_ratio' := Some (replicate (nat k) 0),
                mean' := Some (replicate (nat c) 0),
                singular_values' := Some (replicate (nat k) 0),
                noise_variance' := Some [0]\<rparr>,
           tr @ [Alloc (length X_m), Alloc (nat (r * k)), Alloc (nat (k * c)), Alloc (nat k),
                 Alloc (nat k), Alloc (nat c), Alloc (nat k), Alloc 1]))"
  proof (cases "0 < r \<and> 0 < c")
    case True
    then have "0 < r" "0 < c" by simp_all
    from fit_tail_raises [OF k1 assms(4) this assms(5)] True show ?thesis
      by (simp add: tail)
  next
    case False
    with nonneg have "k = 0 \<or> r = 0 \<or> c = 0" by auto
    from fit_tail_null [OF k1 k0 nonneg this] False show ?thesis
      by (simp add: tail)
  qed
qed

theorem fit_too_many_components_witness:
  "fst (fit diag_engine wide3x4 True (projr (TruncatedSVD 5), [])) =
     Inl (ValueError (Text '' n_components must be < n_features''))
   \<and> snd (snd (fit diag_engine wide3x4 True (projr (TruncatedSVD 5), []))) =
     [Alloc 12, Alloc 15, Alloc 20, Alloc 5, Alloc 5, Alloc 4, Alloc 5, Alloc 1]"
proof -
  let ?e = "projr (TruncatedSVD 5)"
  have inp: "fit_input wide3x4 (?e, []) =
     (Inr [1, 0, 0, 0, 1, 0, 0, 0, 1, 1, 1, 1],
      (?e\<lparr>gdf_datatype := Some float32,
          params := (params ?e)\<lparr>n_rows := PyInt 3, n_cols := PyInt 4\<rparr>\<rparr>,
       [] @ [Alloc 12]))"
    by (simp add: wide3x4_def fit_input_ndarray)
  have "([1, 0, 0, 0, 1, 0, 0, 0, 1, 1, 1, 1 :: real] \<noteq> [] \<longrightarrow>
     fit diag_engine wide3x4 True (?e, []) =
     (Inl (if 0 < (3::int) \<and> 0 < (4::int)
           then ValueError (Text '' n_components must be < n_features'')
           else TypeError (Text ''an integer is required'')),
      (?e\<lparr>gdf_datatype := Some float32,
          params := (params ?e)\<lparr>n_rows := PyInt 3, n_cols := PyInt 4\<rparr>,
          trans_input' := Some (replicate (nat (3 * 5)) 0),
          components' := Some (DeviceArray (replicate (nat (5 * 4)) 0)),
          explained_variance' := Some (replicate (nat 5) 0),
          explained_variance_ratio' := Some (replicate (nat 5) 0),
          mean' := Some (replicate (nat 4) 0),
          singular_values' := Some (replicate (nat 5) 0),
          noise_variance' := Some [0]\<rparr>,
       [] @ [Alloc (length [1, 0, 0, 0, 1, 0, 0, 0, 1, 1, 1, 1 :: real]), Alloc (nat (3 * 5)),
             Alloc (nat (5 * 4)), Alloc (nat 5), Alloc (nat 5), Alloc (nat 4), Alloc (nat 5),
             Alloc 1])))
   \<and> ([1, 0, 0, 0, 1, 0, 0, 0, 1, 1, 1, 1 :: real] = [] \<longrightarrow>
     fit diag_engine wide3x4 True (?e, []) =
     (Inl (TypeError (Text ''an integer is required'')),
      (?e\<lparr>gdf_datatype := Some float32,
          params := (params ?e)\<lparr>n_rows := PyInt 3, n_cols := PyInt 4\<rparr>\<rparr>, [] @ [Alloc 0])))"
    by (rule fit_too_many_components [OF inp, where d = 15 and e = "1 / 10 ^ 7" and f = 0])
       (simp_all add: TruncatedSVD_eq to_c_int_def in_c_int_def to_c_float_def)
  then show ?thesis by simp
qed

text \<open>
  C1 as stated fails: \<open>TruncatedSVD(n_components=4).fit(X)\<close> on a \<open>3 \<times> 3\<close> array
  raises the \<open>ValueError\<close>, but eight device buffers have been allocated by then, and
  \<open>singular_values_\<close>, \<open>None\<close> before the call, holds a buffer of four zeros.
\<close>

theorem fit_allocates_before_check_counterexample:
  "fst (fit diag_engine diag3 True (projr (TruncatedSVD 4), [])) =
     Inl (ValueError (Text '' n_components must be < n_features''))
   \<and> snd (snd (fit diag_engine diag3 True (projr (TruncatedSVD 4), []))) =
     [Alloc 9, Alloc 12, Alloc 12, Alloc 4, Alloc 4, Alloc 3, Alloc 4, Alloc 1]
   \<and> singular_values' (projr (TruncatedSVD 4)) = None
   \<and> singular_values' (fst (snd (fit diag_engine diag3 True (projr (TruncatedSVD 4), [])))) =
     Some (replicate 4 0)"
proof -
  let ?e = "projr (TruncatedSVD 4)"
  let ?e1 = "?e\<lparr>gdf_datatype := Some float32,
          params := (params ?e)\<lparr>n_rows := PyInt 3, n_cols := PyInt 3\<rparr>\<rparr>"
  have inp: "fit_input diag3 (?e, []) =
     (Inr [3, 0, 0, 0, 2, 0, 0, 0, 1], (?e1, [] @ [Alloc 9]))"
    by (simp add: diag3_def fit_input_ndarray)
  have tail: "fit diag_engine diag3 True (?e, []) =
     fit_tail diag_engine True [3, 0, 0, 0, 2, 0, 0, 0, 1]
       ((new_params diag_engine)\<lparr>c_n_components := 4, c_n_rows := 3, c_n_cols := 3,
                        c_n_iterations := 15, c_tol := 1 / 10 ^ 7, c_algorithm := 0\<rparr>)
       (?e1\<lparr>trans_input' := Some (replicate (nat (3 * 4)) 0),
             components' := Some (DeviceArray (replicate (nat (4 * 3)) 0)),
             explained_variance' := Some (replicate (nat 4) 0),
             explained_variance_ratio' := Some (replicate (nat 4) 0),
             mean' := Some (replicate (nat 3) 0),
             singular_values' := Some (replicate (nat 4) 0),
             noise_variance' := Some [0]\<rparr>,
        [] @ [Alloc (length [3, 0, 0, 0, 2, 0, 0, 0, 1 :: real]), Alloc (nat (3 * 4)),
              Alloc (nat (4 * 3)), Alloc (nat 4), Alloc (nat 4), Alloc (nat 3), Alloc (nat 4),
              Alloc 1])"
    by (rule fit_to_tail [OF inp])
       (simp_all add: TruncatedSVD_eq to_c_int_def in_c_int_def to_c_float_def)
  have "fit diag_engine diag3 True (?e, []) =
     (Inl (ValueError (Text '' n_components must be < n_features'')),
       (?e1\<lparr>trans_input' := Some (replicate (nat (3 * 4)) 0),
             components' := Some (DeviceArray (replicate (nat (4 * 3)) 0)),
             explained_variance' := Some (replicate (nat 4) 0),
             explained_variance_ratio' := Some (replicate (nat 4) 0),
             mean' := Some (replicate (nat 3) 0),
             singular_values' := Some (replicate (nat 4) 0),
             noise_variance' := Some [0]\<rparr>,
        [] @ [Alloc (length [3, 0, 0, 0, 2, 0, 0, 0, 1 :: real]), Alloc (nat (3 * 4)),
              Alloc (nat (4 * 3)), Alloc (nat 4), Alloc (nat 4), Alloc (nat 3), Alloc (nat 4),
              Alloc 1]))"
    unfolding tail
    by (rule fit_tail_raises) (simp_all add: TruncatedSVD_eq)
  then show ?thesis by (simp add: TruncatedSVD_eq)
qed






subsection \<open>\<open>transform\<close> and \<open>inverse_transform\<close>\<close>

lemma c_int_mul_small:
  "- (2 ^ 31) \<le> a * b \<Longrightarrow> a * b < 2 ^ 31 \<Longrightarrow> c_int_mul a b = a * b"
  unfolding c_int_mul_def sint_sbintrunc'
  by (rule signed_take_bit_int_eq_self) simp_all

lemma ssize_to_c_int_small: "int n < 2 ^ 31 \<Longrightarrow> ssize_to_c_int n = int n"
  unfolding ssize_to_c_int_def sint_sbintrunc'
  by (rule signed_take_bit_int_eq_self) simp_all

lemma transform_ndarray_ok:
  assumes "n_components (params est) = PyInt k" "0 < k" "k < 2 ^ 31"
    and "n_cols (params est) = PyInt c" "- (2 ^ 31) \<le> c" "c < 2 ^ 31"
    and "components_ptr est = Some comps"
    and "int m < 2 ^ 31" "int m * k < 2 ^ 31"
    and "vals \<noteq> []" "0 < m"
  shows "transform N (NdArray dt [m, c'] vals) (est, tr) =
     (Inr (DataFrame (slices_loop dt
        (written (replicate (nat (int m * k)) 0)
           (tsvdTransform N (c_type dt) vals comps
              ((new_params N)\<lparr>c_n_components := k, c_n_rows := int m, c_n_cols := c\<rparr>)))
        (int m) (py_range k) [])),
      (est, tr @ [Alloc (length vals), Alloc (nat (int m * k)),
                  Native TsvdTransform (c_type dt)
                    ((new_params N)\<lparr>c_n_components := k, c_n_rows := int m, c_n_cols := c\<rparr>)]))"
proof -
  have mk: "c_int_mul (int m) k = int m * k"
    using assms by (intro c_int_mul_small) (simp_all add: order_trans [of _ 0])
  from assms have "0 < int m * k" by (intro mult_pos_pos) simp_all
  then have ne: "replicate (nat (int m * k)) (0::real) \<noteq> []" "\<not> int m * k < 0"
    by (simp_all add: replicate_nat_ne)
  show ?thesis
    using assms(1-8,10) ne
    by (simp add: transform_def transform_input_def py_defs to_device_def shape_at_def
        to_c_int_PyInt py_len_def ssize_to_c_int_small zeros_to_device_def np_zeros_def mk
        to_uintptr_def as_uintptr_device)
qed

lemma transform_ndarray_null:
  assumes "n_components (params est) = PyInt k" "0 \<le> k" "k < 2 ^ 31"
    and "n_cols (params est) = PyInt c" "- (2 ^ 31) \<le> c" "c < 2 ^ 31"
    and "vals = [] \<or> m = 0"
  shows "fst (transform N (NdArray dt [m, c'] vals) (est, tr)) =
           Inl (TypeError (Text ''an integer is required''))"
    and "native_calls (snd (snd (transform N (NdArray dt [m, c'] vals) (est, tr)))) =
           native_calls tr"
proof -
  have "fst (transform N (NdArray dt [m, c'] vals) (est, tr)) =
           Inl (TypeError (Text ''an integer is required''))
      \<and> native_calls (snd (snd (transform N (NdArray dt [m, c'] vals) (est, tr)))) =
           native_calls tr"
  proof (cases "vals = []")
    case True
    then show ?thesis
      by (simp add: transform_def transform_input_def py_defs to_device_def shape_at_def
          as_uintptr_device)
  next
    case False
    with assms(7) have m: "m = 0" by simp
    have "ssize_to_c_int 0 = 0" "c_int_mul 0 k = 0"
      by (simp_all add: ssize_to_c_int_def c_int_mul_def)
    with False assms(1-6) show ?thesis
      by (simp add: m transform_def transform_input_def py_defs to_device_def shape_at_def
          to_c_int_PyInt py_len_def zeros_to_device_def np_zeros_def as_uintptr_device)
  qed
  then show "fst (transform N (NdArray dt [m, c'] vals) (est, tr)) =
           Inl (TypeError (Text ''an integer is required''))"
    and "native_calls (snd (snd (transform N (NdArray dt [m, c'] vals) (est, tr)))) =
           native_calls tr"
    by simp_all
qed

lemma transform_frame:
  "transform N X (est, tr) =
     (fst (transform N X (est, [])), (est, tr @ snd (snd (transform N X (est, [])))))"
  by (cases X)
     (simp_all add: transform_def transform_input_def py_defs to_device_def gpu_matrix_def
      zeros_to_device_def as_uintptr_def split: sum.splits prod.splits)

lemma inverse_transform_frame:
  "inverse_transform N X (est, tr) =
     (fst (inverse_transform N X (est, [])),
      (est, tr @ snd (snd (inverse_transform N X (est, [])))))"
  by (cases X)
     (simp_all add: inverse_transform_def inverse_transform_input_def py_defs to_device_def
      gpu_matrix_def zeros_to_device_def as_uintptr_def split: sum.splits prod.splits)

lemma transform_unfit:
  assumes "n_cols (params est) = PyNone"
  shows "isl (fst (transform N X (est, tr)))"
    and "native_calls (snd (snd (transform N X (est, tr)))) = native_calls tr"
  using assms
  by (cases X;
      simp add: transform_def transform_input_def py_defs to_device_def gpu_matrix_def
      to_c_int_def as_uintptr_def split: sum.splits prod.splits)+

lemma inverse_transform_unfit:
  assumes "n_cols (params est) = PyNone"
  shows "isl (fst (inverse_transform N X (est, tr)))"
    and "native_calls (snd (snd (inverse_transform N X (est, tr)))) = native_calls tr"
  using assms
  by (cases X;
      simp add: inverse_transform_def inverse_transform_input_def py_defs to_device_def
      gpu_matrix_def to_c_int_def as_uintptr_def split: sum.splits prod.splits)+

lemma unfit_ndarray:
  assumes "n_cols (params est) = PyNone"
    and "to_c_int (n_components (params est)) = Inr k"
  shows "fst (transform N (NdArray dt [r, c'] vals) (est, tr)) =
           Inl (TypeError (Text ''an integer is required''))"
    and "fst (inverse_transform N (NdArray dt [r, c'] vals) (est, tr)) =
           Inl (TypeError (Text ''an integer is required''))"
  using assms
  by (simp_all add: transform_def transform_input_def inverse_transform_def
      inverse_transform_input_def py_defs to_device_def shape_at_def py_len_def
      to_c_int_def as_uintptr_device)

lemma init_inv:
  assumes "init a b c d e = Inr est"
  shows "n_cols (params est) = PyNone" and "n_components (params est) = a"
  using assms
  by (auto simp: init_def TSVDparams_init_def split: if_splits sum.splits)

text \<open>
  C3, as the code has it: on a freshly constructed estimator \<open>transform\<close> and
  \<open>inverse_transform\<close> raise an error for every input, and no native routine is
  called. There is no error of its own for a model that is not fitted: on a
  two-dimensional array, with \<open>n_components\<close> convertible to a C \<open>int\<close>, the error is
  the \<open>TypeError\<close> of converting \<open>None\<close> to a C integer: \<open>n_cols\<close>, still \<open>None\<close>,
  or, for an empty array, the null pointer of its device copy, which is read first.
\<close>

theorem transform_before_fit:
  assumes "init a b c d e = Inr est"
  shows "isl (fst (transform N X (est, tr)))
       \<and> native_calls (snd (snd (transform N X (est, tr)))) = native_calls tr
       \<and> isl (fst (inverse_transform N X (est, tr)))
       \<and> native_calls (snd (snd (inverse_transform N X (est, tr)))) = native_calls tr
       \<and> (to_c_int a = Inr k \<longrightarrow>
            fst (transform N (NdArray dt [r, c'] vals) (est, tr)) =
              Inl (TypeError (Text ''an integer is required''))
          \<and> fst (inverse_transform N (NdArray dt [r, c'] vals) (est, tr)) =
              Inl (TypeError (Text ''an integer is required'')))"
  using init_inv [OF assms]
  by (simp add: transform_unfit inverse_transform_unfit unfit_ndarray)

theorem transform_before_fit_witness:
  "isl (fst (transform diag_engine diag3 (projr (TruncatedSVD 1), [])))
   \<and> native_calls (snd (snd (transform diag_engine diag3 (projr (TruncatedSVD 1), [])))) = []
   \<and> fst (inverse_transform diag_engine diag3 (projr (TruncatedSVD 1), [])) =
       Inl (TypeError (Text ''an integer is required''))"
proof -
  have "init (PyInt 1) (PyFloat (1 / 10 ^ 7)) (PyInt 15) PyNone (PyStr ''full'') =
          Inr (projr (TruncatedSVD 1))"
    using TruncatedSVD_eq [of 1, unfolded TruncatedSVD_def]
    by (simp add: TruncatedSVD_eq)
  from transform_before_fit [OF this, where N = diag_engine and X = diag3 and tr = "[]"
         and k = 1 and r = 3 and dt = float32 and c' = 3
         and vals = "[3, 0, 0, 0, 2, 0, 0, 0, 1]"]
  show ?thesis
    by (simp add: diag3_def to_c_int_def in_c_int_def)
qed

text \<open>
  C3 as stated fails: \<open>TruncatedSVD(n_components=2).transform(X)\<close> on a \<open>3 \<times> 3\<close>
  array raises the \<open>TypeError\<close> that the conversion of \<open>None\<close> to a C \<open>int\<close> raises
  anywhere.
\<close>

theorem transform_before_fit_counterexample:
  "fst (transform diag_engine diag3 (projr (TruncatedSVD 2), [])) =
     Inl (TypeError (Text ''an integer is required''))
   \<and> to_c_int PyNone = Inl (TypeError (Text ''an integer is required''))"
  by (simp add: diag3_def unfit_ndarray TruncatedSVD_eq to_c_int_def in_c_int_def)

text \<open>
  C6: \<open>transform\<close> leaves the estimator as it found it, and a second call with the
  same input on the state the first call left returns what the first call returned.
  (The native routine is a function of the buffers and the parameter struct it is
  given.)
\<close>

theorem transform_repeatable:
  "fst (snd (transform N X (est, tr))) = est
   \<and> fst (transform N X (snd (transform N X (est, tr)))) = fst (transform N X (est, tr))"
proof -
  have first: "snd (transform N X (est, tr)) =
      (est, tr @ snd (snd (transform N X (est, []))))"
    by (subst transform_frame) simp
  have "fst (transform N X (est, tr @ snd (snd (transform N X (est, []))))) =
      fst (transform N X (est, tr))"
    by (subst transform_frame, subst (2) transform_frame) simp
  with first show ?thesis by simp
qed

lemma fitted_facts:
  assumes fitted: "fit N X t (est0, tr0) = (Inr (), (est, tr))"
  shows "\<exists>k c comps. n_components (params est) = PyInt k \<and> n_cols (params est) = PyInt c
       \<and> 0 < k \<and> k \<le> c \<and> c < 2 ^ 31 \<and> components_ptr est = Some comps"
proof -
  from fitted have ok: "fst (fit N X t (est0, tr0)) = Inr ()" by simp
  from fit_success_inv [OF ok] obtain X_m est1 tr1 k r c dt d e f where h:
    "fit_input X (est0, tr0) = (Inr X_m, (est1, tr1))"
    "X_m \<noteq> []"
    "n_components (params est0) = PyInt k"
    "n_rows (params est1) = PyInt r"
    "n_cols (params est1) = PyInt c"
    "gdf_datatype est1 = Some dt"
    "0 < r" "0 < k" "k \<le> c" "c < 2 ^ 31" "r < 2 ^ 31"
    "to_c_int (iterated_power (params est0)) = Inr d"
    "to_c_float (tol (params est0)) = Inr e"
    "to_c_int (svd_solver (params est0)) = Inr f"
    by blast
  note ok = fit_ok [OF h refl, where N = N and t = t]
  from fit_input_inv [OF h(1)] h(3) have "n_components (params est1) = PyInt k"
    by auto
  with ok(3,5) h fitted show ?thesis
    by auto
qed

text \<open>
  C2, as the code has it: \<open>transform\<close> does not compare the column count of its
  input with the \<open>n_cols\<close> of the fit. For a model left by a successful \<open>fit\<close> and a
  two-dimensional array whose column count differs from that \<open>n_cols\<close> (its length
  and the size of the result within the C \<open>int\<close> range), \<open>transform\<close> of an array
  that is not empty raises nothing: it calls \<open>tsvdTransform\<close> with the \<open>n_cols\<close> of
  the fit and returns a DataFrame cut from the buffer the routine wrote. For an empty
  array it raises the \<open>TypeError\<close> of the null pointer of an empty device buffer,
  which is no error about the shape, and calls no native routine.
\<close>

theorem transform_without_shape_check:
  assumes "fit N X t (est0, tr0) = (Inr (), (est, tr))"
    and "n_components (params est) = PyInt k"
    and "n_cols (params est) = PyInt c"
    and "components_ptr est = Some comps"
    and "int c' \<noteq> c"
    and "int m < 2 ^ 31" and "int m * k < 2 ^ 31"
  shows "(vals \<noteq> [] \<and> 0 < m \<longrightarrow>
      transform N (NdArray dt [m, c'] vals) (est, tr) =
       (Inr (DataFrame (slices_loop dt
          (written (replicate (nat (int m * k)) 0)
             (tsvdTransform N (c_type dt) vals comps
                ((new_params N)\<lparr>c_n_components := k, c_n_rows := int m, c_n_cols := c\<rparr>)))
          (int m) (py_range k) [])),
        (est, tr @ [Alloc (length vals), Alloc (nat (int m * k)),
                    Native TsvdTransform (c_type dt)
                      ((new_params N)\<lparr>c_n_components := k, c_n_rows := int m,
                                       c_n_cols := c\<rparr>)])))
    \<and> (vals = [] \<or> m = 0 \<longrightarrow>
      fst (transform N (NdArray dt [m, c'] vals) (est, tr)) =
        Inl (TypeError (Text ''an integer is required''))
      \<and> native_calls (snd (snd (transform N (NdArray dt [m, c'] vals) (est, tr)))) =
        native_calls tr)"
proof -
  from fitted_facts [OF assms(1)] assms(2,3)
  have k: "0 < k" "k \<le> c" "c < 2 ^ 31" by auto
  then have k': "0 \<le> k" "k < 2 ^ 31" "- (2 ^ 31) \<le> c" by simp_all
  show ?thesis
  proof (intro conjI impI)
    assume "vals \<noteq> [] \<and> 0 < m"
    then have "vals \<noteq> []" "0 < m" by simp_all
    from transform_ndarray_ok [OF assms(2) k(1) k'(2) assms(3) k'(3) k(3) assms(4,6,7) this]
    show "transform N (NdArray dt [m, c'] vals) (est, tr) =
       (Inr (DataFrame (slices_loop dt
          (written (replicate (nat (int m * k)) 0)
             (tsvdTransform N (c_type dt) vals comps
                ((new_params N)\<lparr>c_n_components := k, c_n_rows := int m, c_n_cols := c\<rparr>)))
          (int m) (py_range k) [])),
        (est, tr @ [Alloc (length vals), Alloc (nat (int m * k)),
                    Native TsvdTransform (c_type dt)
                      ((new_params N)\<lparr>c_n_components := k, c_n_rows := int m,
                                       c_n_cols := c\<rparr>)]))" .
  next
    assume z: "vals = [] \<or> m = 0"
    from transform_ndarray_null(1) [OF assms(2) k'(1,2) assms(3) k'(3) k(3) z]
    show "fst (transform N (NdArray dt [m, c'] vals) (est, tr)) =
        Inl (TypeError (Text ''an integer is required''))" .
  next
    assume z: "vals = [] \<or> m = 0"
    from transform_ndarray_null(2) [OF assms(2) k'(1,2) assms(3) k'(3) k(3) z]
    show "native_calls (snd (snd (transform N (NdArray dt [m, c'] vals) (est, tr)))) =
        native_calls tr" .
  qed
qed

lemma new_params_diag_engine:
  "new_params diag_engine =
     \<lparr>c_n_components = 0, c_n_rows = 0, c_n_cols = 0, c_n_iterations = 0, c_tol = 0,
      c_algorithm = 0\<rparr>"
  by (simp add: diag_engine_def engine_def zero_params_def)

lemma fit_diag3:
  assumes "0 < k" "k \<le> 3"
  shows "fst (fit diag_engine diag3 True (projr (TruncatedSVD k), [])) = Inr ()"
    and "params (fst (snd (fit diag_engine diag3 True (projr (TruncatedSVD k), [])))) =
      \<lparr> n_components = PyInt k, svd_solver = PyInt 0,
        tol = PyFloat (1 / 10 ^ 7), iterated_power = PyInt 15,
        random_state = PyNone, n_cols = PyInt 3, n_rows = PyInt 3, dyn = [] \<rparr>"
    and "\<exists>comps. components_ptr (fst (snd (fit diag_engine diag3 True
            (projr (TruncatedSVD k), [])))) = Some comps"
    and "native_calls (snd (snd (fit diag_engine diag3 True (projr (TruncatedSVD k), [])))) =
      [Native TsvdFitTransform CFloat
        \<lparr>c_n_components = k, c_n_rows = 3, c_n_cols = 3, c_n_iterations = 15,
         c_tol = 1 / 10 ^ 7, c_algorithm = 0\<rparr>]"
proof -
  let ?e = "projr (TruncatedSVD k)"
  let ?e1 = "?e\<lparr>gdf_datatype := Some float32,
          params := (params ?e)\<lparr>n_rows := PyInt 3, n_cols := PyInt 3\<rparr>\<rparr>"
  have inp: "fit_input diag3 (?e, []) = (Inr [3, 0, 0, 0, 2, 0, 0, 0, 1], (?e1, [] @ [Alloc 9]))"
    by (simp add: diag3_def fit_input_ndarray)
  have ne: "[3, 0, 0, 0, 2, 0, 0, 0, 1 :: real] \<noteq> []"
    by simp
  have k: "n_components (params ?e) = PyInt k"
    and p1: "n_rows (params ?e1) = PyInt 3" "n_cols (params ?e1) = PyInt 3"
    "gdf_datatype ?e1 = Some float32"
    and d: "to_c_int (iterated_power (params ?e)) = Inr 15"
    and e: "to_c_float (tol (params ?e)) = Inr (1 / 10 ^ 7)"
    and f: "to_c_int (svd_solver (params ?e)) = Inr 0"
    by (simp_all add: TruncatedSVD_eq to_c_int_def in_c_int_def to_c_float_def)
  note ok = fit_ok [OF inp ne k p1 _ assms _ _ d e f refl, where N = diag_engine and t = True]
  show "fst (fit diag_engine diag3 True (?e, [])) = Inr ()"
    by (rule ok(1)) simp_all
  have "params (fst (snd (fit diag_engine diag3 True (?e, [])))) = params ?e1"
    by (rule ok(3)) simp_all
  then show "params (fst (snd (fit diag_engine diag3 True (?e, [])))) =
      \<lparr> n_components = PyInt k, svd_solver = PyInt 0,
        tol = PyFloat (1 / 10 ^ 7), iterated_power = PyInt 15,
        random_state = PyNone, n_cols = PyInt 3, n_rows = PyInt 3, dyn = [] \<rparr>"
    by (simp add: TruncatedSVD_eq)
  have "components_ptr (fst (snd (fit diag_engine diag3 True (?e, [])))) =
       Some (written (replicate (nat (k * 3)) 0)
         (native_components diag_engine True (c_type float32) [3, 0, 0, 0, 2, 0, 0, 0, 1]
            ((new_params diag_engine)\<lparr>c_n_components := k, c_n_rows := 3, c_n_cols := 3,
                  c_n_iterations := 15, c_tol := 1 / 10 ^ 7, c_algorithm := 0\<rparr>)))"
    by (rule ok(5)) simp_all
  then show "\<exists>comps. components_ptr (fst (snd (fit diag_engine diag3 True (?e, [])))) =
      Some comps"
    by simp
  have "snd (snd (fit diag_engine diag3 True (?e, []))) =
       [] @ [Alloc (length [3, 0, 0, 0, 2, 0, 0, 0, 1 :: real]), Alloc (nat (3 * k)),
             Alloc (nat (k * 3)), Alloc (nat k), Alloc (nat k), Alloc (nat 3), Alloc (nat k),
             Alloc 1,
             Native (if True then TsvdFitTransform else TsvdFit) (c_type float32)
               ((new_params diag_engine)\<lparr>c_n_components := k, c_n_rows := 3, c_n_cols := 3,
                  c_n_iterations := 15, c_tol := 1 / 10 ^ 7, c_algorithm := 0\<rparr>)]"
    by (rule ok(2)) simp_all
  then show "native_calls (snd (snd (fit diag_engine diag3 True (?e, [])))) =
      [Native TsvdFitTransform CFloat
        \<lparr>c_n_components = k, c_n_rows = 3, c_n_cols = 3, c_n_iterations = 15,
         c_tol = 1 / 10 ^ 7, c_algorithm = 0\<rparr>]"
    by (simp add: c_type_def new_params_diag_engine)
qed

theorem transform_without_shape_check_witness:
  "\<not> isl (fst (transform diag_engine wide3x4
             (snd (fit diag_engine diag3 True (projr (TruncatedSVD 2), [])))))
   \<and> native_calls (snd (snd (transform diag_engine wide3x4
             (snd (fit diag_engine diag3 True (projr (TruncatedSVD 2), [])))))) =
      [Native TsvdFitTransform CFloat
        \<lparr>c_n_components = 2, c_n_rows = 3, c_n_cols = 3, c_n_iterations = 15,
         c_tol = 1 / 10 ^ 7, c_algorithm = 0\<rparr>,
       Native TsvdTransform CFloat
        \<lparr>c_n_components = 2, c_n_rows = 3, c_n_cols = 3, c_n_iterations = 0,
         c_tol = 0, c_algorithm = 0\<rparr>]"
proof -
  let ?F = "fit diag_engine diag3 True (projr (TruncatedSVD 2), [])"
  let ?W = "[1, 0, 0, 0, 1, 0, 0, 0, 1, 1, 1, 1 :: real]"
  have "fst ?F = Inr ()"
    by (rule fit_diag3(1)) simp_all
  then have fitted: "?F = (Inr (), (fst (snd ?F), snd (snd ?F)))"
    by (simp add: prod_eq_iff)
  obtain comps where comps: "components_ptr (fst (snd ?F)) = Some comps"
    using fit_diag3(3) [of 2] by auto
  have prm: "params (fst (snd ?F)) =
      \<lparr> n_components = PyInt 2, svd_solver = PyInt 0,
        tol = PyFloat (1 / 10 ^ 7), iterated_power = PyInt 15,
        random_state = PyNone, n_cols = PyInt 3, n_rows = PyInt 3, dyn = [] \<rparr>"
    by (rule fit_diag3(2)) simp_all
  have calls: "native_calls (snd (snd ?F)) =
      [Native TsvdFitTransform CFloat
        \<lparr>c_n_components = 2, c_n_rows = 3, c_n_cols = 3, c_n_iterations = 15,
         c_tol = 1 / 10 ^ 7, c_algorithm = 0\<rparr>]"
    by (rule fit_diag3(4)) simp_all
  have "(?W \<noteq> [] \<and> 0 < (3::nat) \<longrightarrow>
     transform diag_engine (NdArray float32 [3, 4] ?W) (fst (snd ?F), snd (snd ?F)) =
     (Inr (DataFrame (slices_loop float32
        (written (replicate (nat (int 3 * 2)) 0)
           (tsvdTransform diag_engine (c_type float32) ?W comps
              ((new_params diag_engine)\<lparr>c_n_components := 2, c_n_rows := int 3, c_n_cols := 3\<rparr>)))
        (int 3) (py_range 2) [])),
      (fst (snd ?F), snd (snd ?F) @ [Alloc (length ?W), Alloc (nat (int 3 * 2)),
          Native TsvdTransform (c_type float32)
            ((new_params diag_engine)\<lparr>c_n_components := 2, c_n_rows := int 3,
                                        c_n_cols := 3\<rparr>)])))
   \<and> (?W = [] \<or> (3::nat) = 0 \<longrightarrow>
     fst (transform diag_engine (NdArray float32 [3, 4] ?W) (fst (snd ?F), snd (snd ?F))) =
       Inl (TypeError (Text ''an integer is required''))
     \<and> native_calls (snd (snd (transform diag_engine (NdArray float32 [3, 4] ?W)
          (fst (snd ?F), snd (snd ?F))))) = native_calls (snd (snd ?F)))"
    by (rule transform_without_shape_check [OF fitted _ _ comps])
       (simp_all add: prm)
  then show ?thesis
    by (simp add: wide3x4_def calls c_type_def new_params_diag_engine)
qed

text \<open>
  C2 as stated fails: after \<open>TruncatedSVD(n_components=1).fit(X)\<close> on a \<open>3 \<times> 3\<close>
  array, \<open>transform\<close> of a \<open>3 \<times> 4\<close> array raises no error and calls
  \<open>tsvdTransform\<close> with \<open>n_cols = 3\<close>.
\<close>

theorem transform_shape_mismatch_counterexample:
  "fst (fit diag_engine diag3 True (projr (TruncatedSVD 1), [])) = Inr ()
   \<and> \<not> isl (fst (transform diag_engine wide3x4
             (snd (fit diag_engine diag3 True (projr (TruncatedSVD 1), [])))))
   \<and> native_calls (snd (snd (transform diag_engine wide3x4
             (snd (fit diag_engine diag3 True (projr (TruncatedSVD 1), [])))))) =
      [Native TsvdFitTransform CFloat
        \<lparr>c_n_components = 1, c_n_rows = 3, c_n_cols = 3, c_n_iterations = 15,
         c_tol = 1 / 10 ^ 7, c_algorithm = 0\<rparr>,
       Native TsvdTransform CFloat
        \<lparr>c_n_components = 1, c_n_rows = 3, c_n_cols = 3, c_n_iterations = 0,
         c_tol = 0, c_algorithm = 0\<rparr>]"
proof -
  let ?F = "fit diag_engine diag3 True (projr (TruncatedSVD 1), [])"
  have ok: "fst ?F = Inr ()"
    by (rule fit_diag3(1)) simp_all
  obtain comps where comps: "components_ptr (fst (snd ?F)) = Some comps"
    using fit_diag3(3) [of 1] by auto
  have prm: "params (fst (snd ?F)) =
      \<lparr> n_components = PyInt 1, svd_solver = PyInt 0,
        tol = PyFloat (1 / 10 ^ 7), iterated_power = PyInt 15,
        random_state = PyNone, n_cols = PyInt 3, n_rows = PyInt 3, dyn = [] \<rparr>"
    by (rule fit_diag3(2)) simp_all
  have calls: "native_calls (snd (snd ?F)) =
      [Native TsvdFitTransform CFloat
        \<lparr>c_n_components = 1, c_n_rows = 3, c_n_cols = 3, c_n_iterations = 15,
         c_tol = 1 / 10 ^ 7, c_algorithm = 0\<rparr>]"
    by (rule fit_diag3(4)) simp_all
  have "transform diag_engine (NdArray float32 [3, 4] [1, 0, 0, 0, 1, 0, 0, 0, 1, 1, 1, 1])
          (fst (snd ?F), snd (snd ?F)) =
     (Inr (DataFrame (slices_loop float32
        (written (replicate (nat (int 3 * 1)) 0)
           (tsvdTransform diag_engine (c_type float32) [1, 0, 0, 0, 1, 0, 0, 0, 1, 1, 1, 1] comps
              ((new_params diag_engine)\<lparr>c_n_components := 1, c_n_rows := int 3, c_n_cols := 3\<rparr>)))
        (int 3) (py_range 1) [])),
      (fst (snd ?F), snd (snd ?F) @ [Alloc (length [1, 0, 0, 0, 1, 0, 0, 0, 1, 1, 1, 1 :: real]),
          Alloc (nat (int 3 * 1)),
          Native TsvdTransform (c_type float32)
            ((new_params diag_engine)\<lparr>c_n_components := 1, c_n_rows := int 3, c_n_cols := 3\<rparr>)]))"
    by (rule transform_ndarray_ok [OF _ _ _ _ _ _ comps]) (simp_all add: prm)
  with ok show ?thesis
    by (simp add: wide3x4_def calls c_type_def new_params_diag_engine)
qed

subsection \<open>Singular values\<close>

lemma length_written: "length (written buf out) = length buf"
  by (simp add: written_def)

lemma written_full: "length out = length buf \<Longrightarrow> written buf out = out"
  by (simp add: written_def)

lemma sorted_desc_sort_key:
  "sorted_wrt (\<ge>) (map fst (sort_key (\<lambda>p. - fst p) (ps :: (real \<times> 'a) list)))"
proof -
  have "sorted (map (\<lambda>p. - fst p) (sort_key (\<lambda>p. - fst p) ps))"
    by (rule sorted_sort_key)
  then show ?thesis
    by (simp add: sorted_wrt_map)
qed

lemma engine_singular_values_sorted:
  "sorted_wrt (\<ge>) (engine_singular_values (top_eigenpairs K pairs))"
proof -
  have "sorted_wrt (\<ge>) (map fst (take K (sort_key (\<lambda>p. - fst p) pairs)))"
    using sorted_desc_sort_key [of pairs]
    by (simp add: take_map [symmetric])
  then show ?thesis
    by (simp add: engine_singular_values_def top_eigenpairs_def sorted_wrt_map)
qed

lemma engine_singular_values_length:
  "length (engine_singular_values (top_eigenpairs K pairs)) = min K (length pairs)"
  by (simp add: engine_singular_values_def top_eigenpairs_def min.commute)

lemma engine_singular_values_nonneg:
  assumes "\<forall>p \<in> set pairs. 0 \<le> fst p"
  shows "\<forall>s \<in> set (engine_singular_values (top_eigenpairs K pairs)). 0 \<le> s"
  using assms
  by (auto simp: engine_singular_values_def top_eigenpairs_def dest!: in_set_takeD)

lemma length_concat_rows:
  "length (concat (map (\<lambda>b. map (F b) [0..<n]) [0..<k])) = k * n"
  by (induction k) simp_all

lemma nth_concat_rows:
  assumes "a < n" "b < k"
  shows "concat (map (\<lambda>b. map (F b) [0..<n]) [0..<k]) ! (a + b * n) = F b a"
  using assms
proof (induction k)
  case 0
  then show ?case by simp
next
  case (Suc k)
  show ?case
  proof (cases "b < k")
    case True
    then have "a + b * n < k * n"
      using Suc.prems(1)
      by (metis add.commute mult_Suc less_le_trans add_less_cancel_left
          mult_le_mono1 Suc_leI)
    with Suc True show ?thesis
      by (simp add: nth_append length_concat_rows)
  next
    case False
    with Suc.prems have "b = k" by simp
    with Suc.prems show ?thesis
      by (simp add: nth_append length_concat_rows)
  qed
qed

lemma index_in_square:
  assumes "a < n" "b < n"
  shows "a + b * n < n * (n::nat)"
  using assms
  by (metis add.commute mult_Suc less_le_trans add_less_cancel_left mult_le_mono1 Suc_leI)

lemma elem_square:
  assumes "a < n" "b < n"
  shows "elem (square n f) (a + b * n) = f a b"
  using assms index_in_square [OF assms]
  by (simp add: elem_def square_def length_concat_rows nth_concat_rows [where F = "\<lambda>b a. f a b"])

lemma gram_elem:
  assumes "a < n" "b < n"
  shows "elem (gram m n X) (a + b * n) = (\<Sum>i<m. elem X (i + a * m) * elem X (i + b * m))"
  using assms index_in_square [OF assms]
  by (simp add: elem_def gram_def length_concat_rows nth_concat_rows
      interv_sum_list_conv_sum_set_nat atLeast0LessThan)

lemma gram_bilinear_form:
  "(\<Sum>a<n. \<Sum>b<n. u a * (\<Sum>i<m. x i a * x i b) * v b) =
     (\<Sum>i<m. (\<Sum>a<n. x i a * u a) * (\<Sum>b<n. x i b * v b))"
    for u v :: "nat \<Rightarrow> real"
proof -
  have "(\<Sum>a<n. \<Sum>b<n. u a * (\<Sum>i<m. x i a * x i b) * v b) =
        (\<Sum>a<n. \<Sum>b<n. \<Sum>i<m. (x i a * u a) * (x i b * v b))"
    by (simp add: sum_distrib_left sum_distrib_right mult_ac)
  also have "\<dots> = (\<Sum>i<m. \<Sum>a<n. \<Sum>b<n. (x i a * u a) * (x i b * v b))"
  proof -
    have "(\<Sum>a<n. \<Sum>b<n. \<Sum>i<m. (x i a * u a) * (x i b * v b)) =
          (\<Sum>a<n. \<Sum>i<m. \<Sum>b<n. (x i a * u a) * (x i b * v b))"
      by (intro sum.cong refl sum.swap)
    also have "\<dots> = (\<Sum>i<m. \<Sum>a<n. \<Sum>b<n. (x i a * u a) * (x i b * v b))"
      by (rule sum.swap)
    finally show ?thesis .
  qed
  also have "\<dots> = (\<Sum>i<m. (\<Sum>a<n. x i a * u a) * (\<Sum>b<n. x i b * v b))"
    by (simp add: sum_product)
  finally show ?thesis .
qed

lemma gram_quadratic_form:
  "(\<Sum>a<n. v a * (\<Sum>b<n. (\<Sum>i<m. x i a * x i b) * v b)) = (\<Sum>i<m. (\<Sum>a<n. x i a * v a)\<^sup>2)"
    for v :: "nat \<Rightarrow> real"
proof -
  have "(\<Sum>a<n. v a * (\<Sum>b<n. (\<Sum>i<m. x i a * x i b) * v b)) =
        (\<Sum>a<n. \<Sum>b<n. v a * (\<Sum>i<m. x i a * x i b) * v b)"
    by (simp add: sum_distrib_left mult_ac)
  also have "\<dots> = (\<Sum>i<m. (\<Sum>a<n. x i a * v a) * (\<Sum>b<n. x i b * v b))"
    by (rule gram_bilinear_form)
  finally show ?thesis
    by (simp add: power2_eq_square)
qed

lemma eigenvalue_of_gram_nonneg:
  assumes "is_eigenpair n (gram m n X) p"
  shows "0 \<le> fst p"
proof -
  define v where "v = snd p"
  define l where "l = fst p"
  from assms have len: "length v = n"
    and nz: "list_ex (\<lambda>x. x \<noteq> 0) v"
    and eq: "mat_vec n (gram m n X) v = map (\<lambda>x. l * x) v"
    by (simp_all add: is_eigenpair_def v_def l_def)
  have ev: "elem v b = v ! b" if "b < n" for b
    using that len by (simp add: elem_def)
  have row: "(\<Sum>b<n. (\<Sum>i<m. elem X (i + a * m) * elem X (i + b * m)) * v ! b) = l * v ! a"
    if "a < n" for a
  proof -
    have "mat_vec n (gram m n X) v ! a = map (\<lambda>x. l * x) v ! a"
      by (simp add: eq)
    moreover have "mat_vec n (gram m n X) v ! a =
        (\<Sum>b<n. elem (gram m n X) (a + b * n) * elem v b)"
      using that
      by (simp add: mat_vec_def interv_sum_list_conv_sum_set_nat atLeast0LessThan)
    moreover have "\<dots> = (\<Sum>b<n. (\<Sum>i<m. elem X (i + a * m) * elem X (i + b * m)) * v ! b)"
      using that ev by (intro sum.cong refl) (simp add: gram_elem)
    ultimately show ?thesis
      using that len by simp
  qed
  have "l * (\<Sum>a<n. (v ! a)\<^sup>2) = (\<Sum>a<n. v ! a * (l * v ! a))"
    by (simp add: sum_distrib_left power2_eq_square mult_ac)
  also have "\<dots> = (\<Sum>a<n. v ! a *
       (\<Sum>b<n. (\<Sum>i<m. elem X (i + a * m) * elem X (i + b * m)) * v ! b))"
    by (intro sum.cong refl) (simp add: row)
  also have "\<dots> = (\<Sum>i<m. (\<Sum>a<n. elem X (i + a * m) * v ! a)\<^sup>2)"
    by (rule gram_quadratic_form)
  also have "\<dots> \<ge> 0"
    by (intro sum_nonneg) simp
  finally have nonneg: "0 \<le> l * (\<Sum>a<n. (v ! a)\<^sup>2)" .
  from nz obtain j where j: "j < n" "v ! j \<noteq> 0"
    using len by (auto simp: list_ex_iff in_set_conv_nth)
  have "0 < (v ! j)\<^sup>2" using j by simp
  also have "(v ! j)\<^sup>2 \<le> (\<Sum>a<n. (v ! a)\<^sup>2)"
    using j by (intro member_le_sum) simp_all
  finally have "0 < (\<Sum>a<n. (v ! a)\<^sup>2)" .
  with nonneg show ?thesis
    unfolding l_def [symmetric] by (simp add: zero_le_mult_iff)
qed

text \<open>
  A rotation keeps the working matrix a Gram matrix: if \<open>W = Y\<^sup>t Y\<close> then
  \<open>J\<^sup>t W J = (Y J)\<^sup>t (Y J)\<close>, for any matrix \<open>J\<close>. So the diagonal of the working
  matrix is never negative, however many rotations were applied and whichever they
  were.
\<close>

lemma rotated_gram_form:
  assumes "\<forall>a<n. \<forall>b<n. elem W (a + b * n) = (\<Sum>i<m. Y i a * Y i b)"
  shows "\<forall>a<n. \<forall>b<n. elem (rotated n J W) (a + b * n) =
           (\<Sum>i<m. (\<Sum>c<n. Y i c * elem J (c + a * n)) * (\<Sum>d<n. Y i d * elem J (d + b * n)))"
proof (intro allI impI)
  fix a b
  assume ab: "a < n" "b < n"
  have "elem (rotated n J W) (a + b * n) =
      (\<Sum>c<n. \<Sum>d<n. elem J (c + a * n) * elem W (c + d * n) * elem J (d + b * n))"
    using ab
    by (simp add: rotated_def elem_square interv_sum_list_conv_sum_set_nat atLeast0LessThan)
  also have "\<dots> =
      (\<Sum>c<n. \<Sum>d<n. elem J (c + a * n) * (\<Sum>i<m. Y i c * Y i d) * elem J (d + b * n))"
    using assms by (intro sum.cong refl) simp
  also have "\<dots> =
      (\<Sum>i<m. (\<Sum>c<n. Y i c * elem J (c + a * n)) * (\<Sum>d<n. Y i d * elem J (d + b * n)))"
    by (rule gram_bilinear_form)
  finally show "elem (rotated n J W) (a + b * n) =
      (\<Sum>i<m. (\<Sum>c<n. Y i c * elem J (c + a * n)) * (\<Sum>d<n. Y i d * elem J (d + b * n)))" .
qed

lemma jacobi_rotations_gram_form:
  assumes "\<forall>a<n. \<forall>b<n. elem W (a + b * n) = (\<Sum>i<m. Y i a * Y i b)"
  shows "\<exists>Z. \<forall>a<n. \<forall>b<n. elem (fst (jacobi_rotations rot fuel tolerance n W V)) (a + b * n) =
           (\<Sum>i<m. Z i a * Z i b)"
  using assms
proof (induction fuel arbitrary: W V Y)
  case 0
  then show ?case by auto
next
  case (Suc fuel)
  show ?case
  proof (cases "largest_off_diagonal n W < tolerance")
    case True
    with Suc.prems show ?thesis by auto
  next
    case False
    let ?J = "rotation n (rot n W)"
    have "\<forall>a<n. \<forall>b<n. elem (rotated n ?J W) (a + b * n) =
           (\<Sum>i<m. (\<Sum>c<n. Y i c * elem ?J (c + a * n)) * (\<Sum>d<n. Y i d * elem ?J (d + b * n)))"
      using Suc.prems by (rule rotated_gram_form)
    from Suc.IH [OF this, where V = "times_matrix n V ?J"] False show ?thesis
      by simp
  qed
qed

lemma length_jacobi_eigenpairs: "length (jacobi_eigenpairs rot fuel tolerance n C) = n"
  by (simp add: jacobi_eigenpairs_def split: prod.splits)

lemma jacobi_eigenvalues_nonneg:
  "\<forall>p \<in> set (jacobi_eigenpairs rot fuel tolerance n (gram m n X)). 0 \<le> fst p"
proof -
  let ?R = "jacobi_rotations rot fuel tolerance n (gram m n X) (identity_matrix n)"
  have "\<forall>a<n. \<forall>b<n. elem (gram m n X) (a + b * n) =
          (\<Sum>i<m. elem X (i + a * m) * elem X (i + b * m))"
    by (simp add: gram_elem)
  from jacobi_rotations_gram_form [OF this] obtain Z where
    Z: "\<forall>a<n. \<forall>b<n. elem (fst ?R) (a + b * n) = (\<Sum>i<m. Z i a * Z i b)"
    by blast
  have "0 \<le> elem (fst ?R) (a + a * n)" if "a < n" for a
  proof -
    from Z that have "elem (fst ?R) (a + a * n) = (\<Sum>i<m. Z i a * Z i a)" by simp
    also have "\<dots> \<ge> 0" by (intro sum_nonneg) simp
    finally show ?thesis .
  qed
  then show ?thesis
    by (cases ?R) (auto simp: jacobi_eigenpairs_def)
qed

lemma engine_eigenpairs_facts:
  assumes "PyInt (c_algorithm p) \<noteq> COV_EIG_JACOBI \<longrightarrow>
      eigensolver_for eig (nat (c_n_cols p)) (gram (nat (c_n_rows p)) (nat (c_n_cols p)) X)"
  shows "length (engine_eigenpairs eig rot p X) = nat (c_n_cols p)"
    and "\<forall>q \<in> set (engine_eigenpairs eig rot p X). 0 \<le> fst q"
proof -
  show "length (engine_eigenpairs eig rot p X) = nat (c_n_cols p)"
    using assms
    by (simp add: engine_eigenpairs_def length_jacobi_eigenpairs eigensolver_for_def)
  show "\<forall>q \<in> set (engine_eigenpairs eig rot p X). 0 \<le> fst q"
  proof (cases "PyInt (c_algorithm p) = COV_EIG_JACOBI")
    case True
    then show ?thesis
      using jacobi_eigenvalues_nonneg by (simp add: engine_eigenpairs_def)
  next
    case False
    with assms show ?thesis
      by (auto simp: engine_eigenpairs_def eigensolver_for_def list_all_iff
          intro: eigenvalue_of_gram_nonneg)
  qed
qed

lemma native_singular_values_engine:
  "native_singular_values (engine eig rot p0) t ct X prms =
     engine_singular_values (top_eigenpairs (nat (c_n_components prms))
        (engine_eigenpairs eig rot prms X))"
  by (simp add: native_singular_values_def engine_def Let_def)

text \<open>
  The engine on \<open>diag(3, 2, 1)\<close>: the Gram matrix is \<open>diag(9, 4, 1)\<close>, both
  strategies find the eigenvalues 9, 4 and 1, the Jacobi iteration without a
  rotation, and the two largest have the square roots 3 and 2.
\<close>

lemma jacobi_TruncatedSVD_eq:
  "jacobi_TruncatedSVD =
     Inr \<lparr> self_n_components = PyInt 2, self_tol = PyFloat (1 / 10 ^ 9),
           self_n_iter = PyInt 20, self_random_state = PyNone,
           algorithm = PyStr ''jacobi'',
           params = \<lparr> n_components = PyInt 2, svd_solver = PyInt 1,
                      tol = PyFloat (1 / 10 ^ 9), iterated_power = PyInt 20,
                      random_state = PyNone, n_cols = PyNone, n_rows = PyNone, dyn = [] \<rparr>,
           gdf_datatype = None, trans_input' = None, components' = None,
           explained_variance' = None, explained_variance_ratio' = None,
           mean' = None, singular_values' = None, noise_variance' = None,
           components_ptr = None, explained_variance_ptr = None,
           explained_variance_ratio_ptr = None, singular_values_ptr = None \<rparr>"
  by (simp add: jacobi_TruncatedSVD_def init_def get_algorithm_c_name_def COV_EIG_DQ_def
      COV_EIG_JACOBI_def TSVDparams_init_def)

lemma gram_diag3:
  "gram 3 3 [3, 0, 0, 0, 2, 0, 0, 0, 1] = [9, 0, 0, 0, 4, 0, 0, 0, 1]"
  by (simp add: gram_def elem_def upt_rec)

lemma diag_eig_diag3:
  "diag_eig 3 [9, 0, 0, 0, 4, 0, 0, 0, 1] =
     [(9, [1, 0, 0]), (4, [0, 1, 0]), (1, [0, 0, 1])]"
  by (simp add: diag_eig_def elem_def upt_rec)

lemma eigensolver_diag3: "eigensolver_for diag_eig 3 [9, 0, 0, 0, 4, 0, 0, 0, 1]"
  by (simp add: eigensolver_for_def diag_eig_diag3 is_eigenpair_def)
     (simp add: mat_vec_def elem_def upt_rec)

lemma jacobi_rotations_converged:
  assumes "largest_off_diagonal n W < tolerance"
  shows "jacobi_rotations rot fuel tolerance n W V = (W, V)"
  using assms by (cases fuel) simp_all

lemma jacobi_diag3:
  assumes "0 < tolerance"
  shows "jacobi_eigenpairs diag_rot fuel tolerance 3 [9, 0, 0, 0, 4, 0, 0, 0, 1] =
     [(9, [1, 0, 0]), (4, [0, 1, 0]), (1, [0, 0, 1])]"
proof -
  have "largest_off_diagonal 3 [9, 0, 0, 0, 4, 0, 0, 0, 1] = 0"
    by (simp add: largest_off_diagonal_def square_def elem_def upt_rec)
  with assms have "largest_off_diagonal 3 [9, 0, 0, 0, 4, 0, 0, 0, 1] < tolerance"
    by simp
  then show ?thesis
    by (simp add: jacobi_eigenpairs_def jacobi_rotations_converged)
       (simp add: identity_matrix_def square_def elem_def upt_rec)
qed

lemma top_diag3:
  "engine_singular_values (top_eigenpairs 2
     [(9, [1, 0, 0]), (4, [0, 1, 0]), (1, [0, 0, 1])]) = [3, 2]"
proof -
  have "sqrt 9 = 3"
    using real_sqrt_abs [of 3] by simp
  then show ?thesis
    by (simp add: engine_singular_values_def top_eigenpairs_def)
qed

text \<open>
  C5, against the engine of the spec, for both strategies: when \<open>fit\<close> succeeds with
  the engine as native library, the estimator's \<open>singular_values_\<close> holds the
  square roots of the \<open>n_components\<close> largest eigenvalues that the selected
  strategy found for the Gram matrix of the input: \<open>n_components\<close> values,
  non-negative and in descending order. For the Jacobi strategy (section 4.3) this
  holds whatever rotations are applied and whether the iteration stops by the
  tolerance or by the cap of \<open>n_iterations\<close>; for the eigendecomposition (section
  4.2) it holds when the eigensolver returns \<open>n_cols\<close> eigenpairs of the Gram matrix.
\<close>

theorem fit_singular_values:
  assumes fitted: "fit (engine eig rot p0) X t (est0, tr0) = (Inr (), (est, tr))"
    and inp: "fit_input X (est0, tr0) = (Inr X_m, (est1, tr1))"
    and k: "n_components (params est0) = PyInt k"
    and r: "n_rows (params est1) = PyInt r"
    and c: "n_cols (params est1) = PyInt c"
    and d: "to_c_int (iterated_power (params est0)) = Inr d"
    and e: "to_c_float (tol (params est0)) = Inr e"
    and f: "to_c_int (svd_solver (params est0)) = Inr f"
    and eig: "PyInt f \<noteq> COV_EIG_JACOBI \<longrightarrow>
                eigensolver_for eig (nat c) (gram (nat r) (nat c) X_m)"
  shows "singular_values' est =
           Some (engine_singular_values (top_eigenpairs (nat k)
             (if PyInt f = COV_EIG_JACOBI
              then jacobi_eigenpairs rot (nat d) e (nat c) (gram (nat r) (nat c) X_m)
              else eig (nat c) (gram (nat r) (nat c) X_m))))
       \<and> (\<exists>svals. singular_values' est = Some svals \<and> length svals = nat k
             \<and> sorted_wrt (\<ge>) svals \<and> (\<forall>s \<in> set svals. 0 \<le> s))"
proof -
  from fitted have ok: "fst (fit (engine eig rot p0) X t (est0, tr0)) = Inr ()" by simp
  from fit_success_inv [OF ok] obtain X_m' est1' tr1' k' r' c' dt d' e' f' where h:
    "fit_input X (est0, tr0) = (Inr X_m', (est1', tr1'))"
    "X_m' \<noteq> []"
    "n_components (params est0) = PyInt k'"
    "n_rows (params est1') = PyInt r'"
    "n_cols (params est1') = PyInt c'"
    "gdf_datatype est1' = Some dt"
    "0 < r'" "0 < k'" "k' \<le> c'" "c' < 2 ^ 31" "r' < 2 ^ 31"
    "to_c_int (iterated_power (params est0)) = Inr d'"
    "to_c_float (tol (params est0)) = Inr e'"
    "to_c_int (svd_solver (params est0)) = Inr f'"
    by blast
  from h inp k r c d e f have same: "X_m' = X_m" "est1' = est1" "k' = k" "r' = r" "c' = c"
    "d' = d" "e' = e" "f' = f"
    by simp_all
  define prms where "prms = p0\<lparr>c_n_components := k, c_n_rows := r, c_n_cols := c,
                            c_n_iterations := d, c_tol := e, c_algorithm := f\<rparr>"
  have sel: "c_n_components prms = k" "c_n_rows prms = r" "c_n_cols prms = c"
    "c_n_iterations prms = d" "c_tol prms = e" "c_algorithm prms = f"
    by (simp_all add: prms_def)
  let ?out = "engine_singular_values (top_eigenpairs (nat k) (engine_eigenpairs eig rot prms X_m))"
  have np: "new_params (engine eig rot p0) = p0"
    by (simp add: engine_def)
  from fit_ok(4) [OF h refl, where N = "engine eig rot p0" and t = t] fitted
  have sv: "singular_values' est = Some (written (replicate (nat k) 0) ?out)"
    by (simp add: same native_singular_values_engine np prms_def)
  from eig have eig': "PyInt (c_algorithm prms) \<noteq> COV_EIG_JACOBI \<longrightarrow>
      eigensolver_for eig (nat (c_n_cols prms))
        (gram (nat (c_n_rows prms)) (nat (c_n_cols prms)) X_m)"
    by (simp add: sel)
  note facts = engine_eigenpairs_facts [OF eig', where rot = rot]
  from facts(1) h(8,9) have len: "length ?out = nat k"
    by (simp add: engine_singular_values_length sel same)
  then have w: "written (replicate (nat k) 0) ?out = ?out"
    by (simp add: written_full)
  have pairs: "engine_eigenpairs eig rot prms X_m =
      (if PyInt f = COV_EIG_JACOBI
       then jacobi_eigenpairs rot (nat d) e (nat c) (gram (nat r) (nat c) X_m)
       else eig (nat c) (gram (nat r) (nat c) X_m))"
    by (simp add: engine_eigenpairs_def sel)
  have "sorted_wrt (\<ge>) ?out"
    by (rule engine_singular_values_sorted)
  moreover have "\<forall>s \<in> set ?out. 0 \<le> s"
    using facts(2) by (rule engine_singular_values_nonneg)
  moreover have "singular_values' est = Some ?out"
    using sv w by simp
  ultimately show ?thesis
    using len by (simp add: pairs [symmetric])
qed

theorem fit_singular_values_witness:
  "singular_values' (fst (snd (fit diag_engine diag3 True (projr (TruncatedSVD 2), [])))) =
     Some [3, 2]
   \<and> singular_values' (fst (snd (fit diag_engine diag3 True (projr jacobi_TruncatedSVD, [])))) =
     Some [3, 2]"
proof -
  let ?X = "[3, 0, 0, 0, 2, 0, 0, 0, 1 :: real]"
  have full: "singular_values' (fst (snd (fit diag_engine diag3 True (projr (TruncatedSVD 2), [])))) =
     Some [3, 2]"
  proof -
    let ?e = "projr (TruncatedSVD 2)"
    let ?e1 = "?e\<lparr>gdf_datatype := Some float32,
          params := (params ?e)\<lparr>n_rows := PyInt 3, n_cols := PyInt 3\<rparr>\<rparr>"
    let ?F = "fit (engine diag_eig diag_rot zero_params) diag3 True (?e, [])"
    have inp: "fit_input diag3 (?e, []) = (Inr ?X, (?e1, [] @ [Alloc 9]))"
      by (simp add: diag3_def fit_input_ndarray)
    have "fst ?F = Inr ()"
      by (rule fit_ok(1) [OF inp, where k = 2 and r = 3 and c = 3 and d = 15
            and e = "1 / 10 ^ 7" and f = 0])
         (simp_all add: TruncatedSVD_eq to_c_int_def in_c_int_def to_c_float_def)
    then have fitted: "?F = (Inr (), (fst (snd ?F), snd (snd ?F)))"
      by (simp add: prod_eq_iff)
    have "singular_values' (fst (snd ?F)) =
           Some (engine_singular_values (top_eigenpairs (nat 2)
             (if PyInt 0 = COV_EIG_JACOBI
              then jacobi_eigenpairs diag_rot (nat 15) (1 / 10 ^ 7) (nat 3) (gram (nat 3) (nat 3) ?X)
              else diag_eig (nat 3) (gram (nat 3) (nat 3) ?X))))
       \<and> (\<exists>svals. singular_values' (fst (snd ?F)) = Some svals \<and> length svals = nat 2
             \<and> sorted_wrt (\<ge>) svals \<and> (\<forall>s \<in> set svals. 0 \<le> s))"
      by (rule fit_singular_values [OF fitted inp])
         (simp_all add: TruncatedSVD_eq to_c_int_def in_c_int_def to_c_float_def
            COV_EIG_JACOBI_def gram_diag3 eigensolver_diag3)
    then show ?thesis
      by (simp add: diag_engine_def COV_EIG_JACOBI_def gram_diag3 diag_eig_diag3 top_diag3)
  qed
  have jacobi: "singular_values' (fst (snd (fit diag_engine diag3 True
        (projr jacobi_TruncatedSVD, [])))) = Some [3, 2]"
  proof -
    let ?e = "projr jacobi_TruncatedSVD"
    let ?e1 = "?e\<lparr>gdf_datatype := Some float32,
          params := (params ?e)\<lparr>n_rows := PyInt 3, n_cols := PyInt 3\<rparr>\<rparr>"
    let ?F = "fit (engine diag_eig diag_rot zero_params) diag3 True (?e, [])"
    have inp: "fit_input diag3 (?e, []) = (Inr ?X, (?e1, [] @ [Alloc 9]))"
      by (simp add: diag3_def fit_input_ndarray)
    have "fst ?F = Inr ()"
      by (rule fit_ok(1) [OF inp, where k = 2 and r = 3 and c = 3 and d = 20
            and e = "1 / 10 ^ 9" and f = 1])
         (simp_all add: jacobi_TruncatedSVD_eq to_c_int_def in_c_int_def to_c_float_def)
    then have fitted: "?F = (Inr (), (fst (snd ?F), snd (snd ?F)))"
      by (simp add: prod_eq_iff)
    have "singular_values' (fst (snd ?F)) =
           Some (engine_singular_values (top_eigenpairs (nat 2)
             (if PyInt 1 = COV_EIG_JACOBI
              then jacobi_eigenpairs diag_rot (nat 20) (1 / 10 ^ 9) (nat 3) (gram (nat 3) (nat 3) ?X)
              else diag_eig (nat 3) (gram (nat 3) (nat 3) ?X))))
       \<and> (\<exists>svals. singular_values' (fst (snd ?F)) = Some svals \<and> length svals = nat 2
             \<and> sorted_wrt (\<ge>) svals \<and> (\<forall>s \<in> set svals. 0 \<le> s))"
      by (rule fit_singular_values [OF fitted inp])
         (simp_all add: jacobi_TruncatedSVD_eq to_c_int_def in_c_int_def to_c_float_def
            COV_EIG_JACOBI_def)
    then show ?thesis
      by (simp add: diag_engine_def COV_EIG_JACOBI_def gram_diag3 jacobi_diag3 top_diag3)
  qed
  from full jacobi show ?thesis by simp
qed

end
